theory Spec2Isabelle
  imports Complex_Main "HOL-Library.Sublist"
begin

section \<open>JavaScript numbers and Maps\<close>

text \<open>
  The orchestrator computes with JavaScript numbers. A number is modelled as NaN, one of
  the two infinities, or a finite value; finite values are taken as exact reals, so the
  rounding of IEEE doubles and the sign of zero are not represented (a finite value
  divided by zero of the same sign as the numerator gives \<open>PosInf\<close>).
\<close>

datatype jsnum = NaN | NegInf | PosInf | Fin real

fun js_add :: "jsnum \<Rightarrow> jsnum \<Rightarrow> jsnum" where
  "js_add NaN _ = NaN"
| "js_add _ NaN = NaN"
| "js_add PosInf NegInf = NaN"
| "js_add NegInf PosInf = NaN"
| "js_add PosInf _ = PosInf"
| "js_add _ PosInf = PosInf"
| "js_add NegInf _ = NegInf"
| "js_add _ NegInf = NegInf"
| "js_add (Fin a) (Fin b) = Fin (a + b)"

fun js_neg :: "jsnum \<Rightarrow> jsnum" where
  "js_neg NaN = NaN"
| "js_neg NegInf = PosInf"
| "js_neg PosInf = NegInf"
| "js_neg (Fin a) = Fin (- a)"

definition js_sub :: "jsnum \<Rightarrow> jsnum \<Rightarrow> jsnum" where
  "js_sub a b = js_add a (js_neg b)"

text \<open>The sign of a number that is not NaN: -1, 0 or 1.\<close>

fun js_sign :: "jsnum \<Rightarrow> int" where
  "js_sign NaN = 0"
| "js_sign NegInf = -1"
| "js_sign PosInf = 1"
| "js_sign (Fin a) = (if a < 0 then -1 else if a = 0 then 0 else 1)"

definition inf_of_sign :: "int \<Rightarrow> jsnum" where
  "inf_of_sign s = (if s < 0 then NegInf else if s = 0 then NaN else PosInf)"

fun js_mul :: "jsnum \<Rightarrow> jsnum \<Rightarrow> jsnum" where
  "js_mul NaN _ = NaN"
| "js_mul _ NaN = NaN"
| "js_mul (Fin a) (Fin b) = Fin (a * b)"
| "js_mul a b = inf_of_sign (js_sign a * js_sign b)"

fun js_div :: "jsnum \<Rightarrow> jsnum \<Rightarrow> jsnum" where
  "js_div NaN _ = NaN"
| "js_div _ NaN = NaN"
| "js_div (Fin a) (Fin b) = (if b = 0 then inf_of_sign (js_sign (Fin a)) else Fin (a / b))"
| "js_div (Fin a) _ = Fin 0"
| "js_div a (Fin b) = inf_of_sign (js_sign a * (if b < 0 then -1 else 1))"
| "js_div _ _ = NaN"

text \<open>\<open>Math.min\<close> of two arguments: NaN if either is NaN.\<close>

fun js_min :: "jsnum \<Rightarrow> jsnum \<Rightarrow> jsnum" where
  "js_min NaN _ = NaN"
| "js_min _ NaN = NaN"
| "js_min NegInf _ = NegInf"
| "js_min _ NegInf = NegInf"
| "js_min PosInf b = b"
| "js_min a PosInf = a"
| "js_min (Fin a) (Fin b) = Fin (min a b)"

text \<open>The comparison \<open>a >= b\<close>: false when either side is NaN.\<close>

fun js_ge :: "jsnum \<Rightarrow> jsnum \<Rightarrow> bool" where
  "js_ge NaN _ = False"
| "js_ge _ NaN = False"
| "js_ge PosInf _ = True"
| "js_ge _ NegInf = True"
| "js_ge NegInf _ = False"
| "js_ge _ PosInf = False"
| "js_ge (Fin a) (Fin b) = (b \<le> a)"

text \<open>
  A JavaScript \<open>Map\<close> keeps its entries in insertion order: an association list with
  distinct keys. \<open>set\<close> replaces the value of a present key in place and appends an
  absent one.
\<close>

type_synonym ('k, 'v) jsmap = "('k \<times> 'v) list"

fun map_set :: "('k, 'v) jsmap \<Rightarrow> 'k \<Rightarrow> 'v \<Rightarrow> ('k, 'v) jsmap" where
  "map_set [] k v = [(k, v)]"
| "map_set ((k', v') # m) k v = (if k' = k then (k, v) # m else (k', v') # map_set m k v)"

definition map_get :: "('k, 'v) jsmap \<Rightarrow> 'k \<Rightarrow> 'v option" where
  "map_get m k = map_of m k"

definition map_has :: "('k, 'v) jsmap \<Rightarrow> 'k \<Rightarrow> bool" where
  "map_has m k = (map_of m k \<noteq> None)"

definition map_delete :: "('k, 'v) jsmap \<Rightarrow> 'k \<Rightarrow> ('k, 'v) jsmap" where
  "map_delete m k = filter (\<lambda>e. fst e \<noteq> k) m"

definition map_values :: "('k, 'v) jsmap \<Rightarrow> 'v list" where
  "map_values m = map snd m"

definition map_size :: "('k, 'v) jsmap \<Rightarrow> jsnum" where
  "map_size m = Fin (real (length m))"

section \<open>Task progress (bots/all\_bots.js, class CommandProcessor)\<close>

text \<open>The record stored in \<open>taskProgress\<close> for one task.\<close>

record progress =
  overall :: jsnum
  steps :: "jsnum list"
  bots :: "(string, jsnum) jsmap"
  resources :: "(string, jsnum) jsmap"
  coordinates :: "(string, jsnum) jsmap"

text \<open>\<open>Array.from(m.values()).reduce((a, b) => a + b, 0) / m.size\<close>\<close>

definition dimension_average :: "(string, jsnum) jsmap \<Rightarrow> jsnum" where
  "dimension_average m = js_div (foldl js_add (Fin 0) (map_values m)) (map_size m)"

definition weight_bots :: jsnum where "weight_bots = Fin (4 / 10)"
definition weight_resources :: jsnum where "weight_resources = Fin (3 / 10)"
definition weight_coordinates :: jsnum where "weight_coordinates = Fin (3 / 10)"

definition calculateOverallProgress :: "progress \<Rightarrow> jsnum" where
  "calculateOverallProgress p =
     (let overall0 = Fin 0;
          botProgress = dimension_average (bots p);
          overall1 = js_add overall0 (js_mul botProgress weight_bots);
          resourceProgress = dimension_average (resources p);
          overall2 = js_add overall1 (js_mul resourceProgress weight_resources);
          coordinateProgress = dimension_average (coordinates p);
          overall3 = js_add overall2 (js_mul coordinateProgress weight_coordinates)
      in js_min overall3 (Fin 100))"

text \<open>
  \<open>getResourceProgress\<close>: one entry per required material, \<open>min(current / required * 100, 100)\<close>.
  \<open>getCurrentResourceCount\<close> is not part of the repository's sources; the count it
  returns for each resource is the parameter \<open>current\<close>.
\<close>

definition getResourceProgress ::
  "(string \<Rightarrow> jsnum) \<Rightarrow> (string, jsnum) jsmap \<Rightarrow> (string, jsnum) jsmap" where
  "getResourceProgress current materials =
     foldl (\<lambda>progress (resource, required).
              map_set progress resource
                (js_min (js_mul (js_div (current resource) required) (Fin 100)) (Fin 100)))
           [] materials"

text \<open>
  \<open>getCoordinateProgress\<close>: a single entry \<open>travel\<close>, present only when the task has a
  location (\<open>null\<close> and the empty string are falsy). \<open>getCurrentLocation\<close> and \<open>calculateDistance\<close> are not part of the sources;
  the distance they yield is the parameter \<open>distance\<close>, and \<open>totalDistance\<close> is read
  from the analysis' coordinate plan.
\<close>

definition getCoordinateProgress ::
  "string option \<Rightarrow> jsnum \<Rightarrow> jsnum \<Rightarrow> (string, jsnum) jsmap" where
  "getCoordinateProgress location distance totalDistance =
     (case location of
        None \<Rightarrow> []
      | Some l \<Rightarrow>
          if l = [] then [] else
          (let percentage = js_mul (js_div (js_sub totalDistance distance) totalDistance) (Fin 100)
           in map_set [] ''travel'' (js_min percentage (Fin 100))))"

text \<open>
  The progress record that \<open>initializeTaskTracking\<close> stores for a new task: every
  assigned bot at 0, no resource and no coordinate entries.
\<close>

definition initial_progress :: "string list \<Rightarrow> nat \<Rightarrow> progress" where
  "initial_progress botNames nsteps =
     \<lparr> overall = Fin 0,
       steps = replicate nsteps (Fin 0),
       bots = foldl (\<lambda>m b. map_set m b (Fin 0)) [] botNames,
       resources = [],
       coordinates = [] \<rparr>"

section \<open>The command processor (bots/all\_bots.js, class CommandProcessor)\<close>

text \<open>
  The entry of the \<open>commands\<close> table for one action. The table is read from a JSON file
  that is not among the sources, so it is a field of the processor's state; the only
  property the code reads is \<open>admin_only\<close>.
\<close>

record command_spec =
  admin_only :: bool

record admin_permission =
  level :: string
  permissions :: "string list"
  addedBy :: string
  addedAt :: int

record saved_location =
  loc_x :: int
  loc_y :: int
  loc_z :: int
  savedBy :: string
  saved_timestamp :: int

text \<open>The value \<open>extractAction\<close> returns: \<open>{type: category, action: keyword}\<close>.\<close>

record extracted_action =
  action_type :: string
  action_name :: string

record parameters =
  item :: "string option"
  quantity :: "string option"

record parsed_command =
  parsed_bots :: "string list"
  parsed_action :: "extracted_action option"
  parsed_parameters :: parameters
  parsed_location :: "string option"
  originalCommand :: string

text \<open>
  What \<open>analyzeCommand\<close> returns, as far as the class reads it: the step list, the
  required materials, and the coordinate plan's total distance. \<open>analyzeCommand\<close> itself is
  not among the sources and is a parameter of \<open>processNaturalCommand\<close>.
\<close>

record analysis =
  step_by_step_plan :: "string list"
  required_materials :: "(string, jsnum) jsmap"
  plan_distance :: jsnum

text \<open>
  The record stored in \<open>activeTasks\<close>. \<open>progressInterval\<close> tells whether the one-second
  timer of \<open>startProgressTracking\<close> is registered.
\<close>

record taskInfo =
  command :: string
  startTime :: int
  task_bots :: "string list"
  task_action :: "extracted_action option"
  task_parameters :: parameters
  task_location :: "string option"
  task_analysis :: analysis
  status :: string
  currentStep :: nat
  totalSteps :: nat
  progressInterval :: bool

record progress_update =
  update_timestamp :: int
  update_progress :: jsnum
  update_botProgress :: "(string, jsnum) jsmap"
  update_resourceProgress :: "(string, jsnum) jsmap"
  update_coordinateProgress :: "(string, jsnum) jsmap"

datatype console_line = Log string | Error string

text \<open>
  What a command asks of a game client (chat, movement, status report): the clients are
  external, so each request is recorded in \<open>requests\<close>.
\<close>

datatype bot_request = Chat string string | Act string string | Status string

text \<open>
  The state of the processor. \<open>registered\<close> lists the keys of the \<open>bots\<close> Map (the values
  are game clients), \<open>admins\<close> is the Set in insertion order, \<open>clock\<close> is what
  \<open>Date.now()\<close> returns, \<open>console\<close> collects the lines written to the console and
  \<open>positions\<close> gives each client's current block position.
\<close>

record command_processor =
  commands :: "(string, command_spec) jsmap"
  registered :: "string list"
  teams :: "(string, string list) jsmap"
  savedLocations :: "(string, saved_location) jsmap"
  admins :: "string list"
  adminPermissions :: "(string, admin_permission) jsmap"
  commandCategories :: "(string \<times> string list) list"
  parameter_items :: "string list"
  parameter_quantities :: "string list"
  parameter_locations :: "string list"
  activeTasks :: "(string, taskInfo) jsmap"
  taskProgress :: "(string, progress) jsmap"
  taskUpdates :: "(string, progress_update list) jsmap"
  clock :: int
  console :: "console_line list"
  requests :: "bot_request list"
  positions :: "string \<Rightarrow> int \<times> int \<times> int"

definition console_log :: "string \<Rightarrow> command_processor \<Rightarrow> command_processor" where
  "console_log msg cp = cp\<lparr>console := console cp @ [Log msg]\<rparr>"

definition console_error :: "string \<Rightarrow> command_processor \<Rightarrow> command_processor" where
  "console_error msg cp = cp\<lparr>console := console cp @ [Error msg]\<rparr>"

definition request :: "bot_request \<Rightarrow> command_processor \<Rightarrow> command_processor" where
  "request r cp = cp\<lparr>requests := requests cp @ [r]\<rparr>"

subsection \<open>Admin management\<close>

definition set_has :: "'a list \<Rightarrow> 'a \<Rightarrow> bool" where
  "set_has s x = (x \<in> set s)"

definition set_add :: "'a list \<Rightarrow> 'a \<Rightarrow> 'a list" where
  "set_add s x = (if x \<in> set s then s else s @ [x])"

definition set_delete :: "'a list \<Rightarrow> 'a \<Rightarrow> 'a list" where
  "set_delete s x = removeAll x s"

definition super_admin_permission :: "int \<Rightarrow> admin_permission" where
  "super_admin_permission now =
     \<lparr> level = ''super_admin'',
       permissions = [''all_commands'', ''manage_admins'', ''manage_bots'', ''manage_teams'',
                      ''teleport_anywhere'', ''override_limits''],
       addedBy = ''system'',
       addedAt = now \<rparr>"

text \<open>
  The constructor: \<open>admins = new Set(['CodeDevPro'])\<close>, then
  \<open>initializeAdminPermissions\<close>. The tables loaded from files are arguments.
\<close>

definition new_CommandProcessor ::
  "(string, command_spec) jsmap \<Rightarrow> (string \<times> string list) list \<Rightarrow> string list \<Rightarrow> string list
     \<Rightarrow> string list \<Rightarrow> int \<Rightarrow> (string \<Rightarrow> int \<times> int \<times> int) \<Rightarrow> command_processor" where
  "new_CommandProcessor cmds cats items quantities locations now pos =
     \<lparr> commands = cmds,
       registered = [],
       teams = [],
       savedLocations = [],
       admins = [''CodeDevPro''],
       adminPermissions = map_set [] ''CodeDevPro'' (super_admin_permission now),
       commandCategories = cats,
       parameter_items = items,
       parameter_quantities = quantities,
       parameter_locations = locations,
       activeTasks = [],
       taskProgress = [],
       taskUpdates = [],
       clock = now,
       console = [],
       requests = [],
       positions = pos \<rparr>"

definition isAdmin :: "command_processor \<Rightarrow> string \<Rightarrow> bool" where
  "isAdmin cp username = set_has (admins cp) username"

definition listAdmins :: "command_processor \<Rightarrow> command_processor" where
  "listAdmins cp = console_log ''Current Admins:'' cp"

definition addAdmin :: "string \<Rightarrow> command_processor \<Rightarrow> bool \<times> command_processor" where
  "addAdmin adminName cp =
     (if set_has (admins cp) adminName
      then (False, console_log (''Admin '' @ adminName @ '' already exists'') cp)
      else (True,
            console_log (''Added new admin: '' @ adminName)
              (cp\<lparr> admins := set_add (admins cp) adminName,
                    adminPermissions := map_set (adminPermissions cp) adminName
                      \<lparr> level = ''admin'',
                        permissions = [''basic_commands'', ''manage_bots'', ''manage_teams''],
                        addedBy = ''CodeDevPro'',
                        addedAt = clock cp \<rparr> \<rparr>)))"

definition removeAdmin :: "string \<Rightarrow> command_processor \<Rightarrow> bool \<times> command_processor" where
  "removeAdmin adminName cp =
     (if adminName = ''CodeDevPro''
      then (False, console_log ''Cannot remove super admin CodeDevPro'' cp)
      else (True,
            console_log (''Removed admin: '' @ adminName)
              (cp\<lparr> admins := set_delete (admins cp) adminName,
                    adminPermissions := map_delete (adminPermissions cp) adminName \<rparr>)))"

definition getAdminPermissions :: "string \<Rightarrow> command_processor \<Rightarrow> command_processor" where
  "getAdminPermissions adminName cp =
     (case map_get (adminPermissions cp) adminName of
        None \<Rightarrow> console_log (''No permissions found for '' @ adminName) cp
      | Some _ \<Rightarrow> console_log (''Permissions for '' @ adminName) cp)"

definition getAdminStatus :: "string \<Rightarrow> command_processor \<Rightarrow> command_processor" where
  "getAdminStatus adminName cp = console_log (''Status for '' @ adminName) cp"

text \<open>A sequence of admin operations, applied in order; the returned flags are dropped.\<close>

datatype admin_op = AddAdmin string | RemoveAdmin string

fun apply_admin_op :: "admin_op \<Rightarrow> command_processor \<Rightarrow> command_processor" where
  "apply_admin_op (AddAdmin n) cp = snd (addAdmin n cp)"
| "apply_admin_op (RemoveAdmin n) cp = snd (removeAdmin n cp)"

definition apply_admin_ops :: "admin_op list \<Rightarrow> command_processor \<Rightarrow> command_processor" where
  "apply_admin_ops ops cp = foldl (\<lambda>c op. apply_admin_op op c) cp ops"

subsection \<open>Structured commands: \<open>processCommand\<close>\<close>

record command_params =
  message :: string
  botName :: string
  targetBot :: string
  admin_command :: string
  admin_name :: string
  location_name :: string

record commandData =
  cmd_type :: string
  cmd_action :: string
  cmd_target :: string
  cmd_params :: command_params
  username :: string

definition handleMessage ::
  "string \<Rightarrow> string \<Rightarrow> command_params \<Rightarrow> command_processor \<Rightarrow> command_processor" where
  "handleMessage action target params cp =
     (if target = ''all''
      then foldl (\<lambda>c b. request (Chat b (message params)) c) cp (registered cp)
      else if set_has (registered cp) target
           then request (Chat target (message params)) cp
           else cp)"

definition handleSaveLocation ::
  "string \<Rightarrow> command_params \<Rightarrow> command_processor \<Rightarrow> command_processor" where
  "handleSaveLocation bname params cp =
     (case positions cp bname of (x, y, z) \<Rightarrow>
        console_log (''Saved location '' @ location_name params)
          (cp\<lparr>savedLocations := map_set (savedLocations cp) (location_name params)
               \<lparr> loc_x = x, loc_y = y, loc_z = z, savedBy = bname, saved_timestamp = clock cp \<rparr>\<rparr>))"

definition handleGotoLocation ::
  "string \<Rightarrow> command_params \<Rightarrow> command_processor \<Rightarrow> command_processor" where
  "handleGotoLocation bname params cp =
     (case map_get (savedLocations cp) (location_name params) of
        None \<Rightarrow> console_error (''Location '' @ location_name params @ '' not found'') cp
      | Some _ \<Rightarrow> request (Act bname ''goto'') cp)"

definition handleAction ::
  "string \<Rightarrow> string \<Rightarrow> command_params \<Rightarrow> command_processor \<Rightarrow> command_processor" where
  "handleAction action target params cp =
     (if \<not> set_has (registered cp) target then cp
      else if action = ''mine'' then console_log (''Mining'') cp
      else if action = ''build'' then console_log (''Building'') cp
      else if action = ''collect'' then console_log (''Collecting'') cp
      else if action = ''teleport'' then request (Act target ''teleport'') cp
      else if action = ''goto'' then request (Act target ''goto'') cp
      else if action = ''follow_coords'' then request (Act target ''follow_coords'') cp
      else if action = ''save_location'' then handleSaveLocation target params cp
      else if action = ''goto_location'' then handleGotoLocation target params cp
      else cp)"

definition sendBotStatus :: "string \<Rightarrow> command_processor \<Rightarrow> command_processor" where
  "sendBotStatus bname cp = console_log (''Status: '' @ bname) (request (Status bname) cp)"

definition handleStatus ::
  "string \<Rightarrow> string \<Rightarrow> command_params \<Rightarrow> command_processor \<Rightarrow> command_processor" where
  "handleStatus action target params cp =
     (if target = ''all''
      then foldl (\<lambda>c b. sendBotStatus b c) cp (registered cp)
      else if set_has (registered cp) target then sendBotStatus target cp
      else cp)"

definition addToTeam :: "string \<Rightarrow> string \<Rightarrow> command_processor \<Rightarrow> command_processor" where
  "addToTeam bname target cp =
     (let team = (case map_get (teams cp) bname of None \<Rightarrow> [] | Some t \<Rightarrow> t)
      in console_log (''Added '' @ target @ '' to team'')
           (cp\<lparr>teams := map_set (teams cp) bname (set_add team target)\<rparr>))"

definition removeFromTeam :: "string \<Rightarrow> string \<Rightarrow> command_processor \<Rightarrow> command_processor" where
  "removeFromTeam bname target cp =
     (case map_get (teams cp) bname of
        None \<Rightarrow> cp
      | Some team \<Rightarrow>
          console_log (''Removed '' @ target @ '' from team'')
            (cp\<lparr>teams := map_set (teams cp) bname (set_delete team target)\<rparr>))"

definition listTeam :: "string \<Rightarrow> command_processor \<Rightarrow> command_processor" where
  "listTeam bname cp =
     (case map_get (teams cp) bname of
        None \<Rightarrow> cp
      | Some team \<Rightarrow> console_log (''Team members:'') cp)"

definition handleTeam ::
  "string \<Rightarrow> string \<Rightarrow> command_params \<Rightarrow> command_processor \<Rightarrow> command_processor" where
  "handleTeam action target params cp =
     (if action = ''add'' then addToTeam (botName params) (targetBot params) cp
      else if action = ''remove'' then removeFromTeam (botName params) (targetBot params) cp
      else if action = ''list'' then listTeam (botName params) cp
      else cp)"

definition handleAdminCommand ::
  "string \<Rightarrow> string \<Rightarrow> command_params \<Rightarrow> command_processor \<Rightarrow> command_processor" where
  "handleAdminCommand action target params cp =
     (let c = admin_command params; n = admin_name params
      in if c = ''list'' then listAdmins cp
         else if c = ''add'' then snd (addAdmin n cp)
         else if c = ''remove'' then snd (removeAdmin n cp)
         else if c = ''permissions'' then getAdminPermissions n cp
         else if c = ''status'' then getAdminStatus n cp
         else console_error (''Unknown admin command: '' @ c) cp)"

text \<open>
  \<open>command?.admin_only\<close>: false when the action has no entry in the table.
\<close>

definition is_admin_only :: "command_processor \<Rightarrow> string \<Rightarrow> bool" where
  "is_admin_only cp action =
     (case map_get (commands cp) action of None \<Rightarrow> False | Some c \<Rightarrow> admin_only c)"

text \<open>
  \<open>processCommand\<close> returns \<open>false\<close> for a rejected command and nothing (\<open>undefined\<close>,
  here \<open>None\<close>) otherwise.
\<close>

definition processCommand :: "commandData \<Rightarrow> command_processor \<Rightarrow> bool option \<times> command_processor" where
  "processCommand d cp =
     (let t = cmd_type d; action = cmd_action d; target = cmd_target d; params = cmd_params d
      in if is_admin_only cp action \<and> \<not> isAdmin cp (username d)
         then (Some False,
               console_error (''User '' @ username d @ '' is not authorized to use admin command: ''
                              @ action) cp)
         else (None,
               if t = ''message'' then handleMessage action target params cp
               else if t = ''action'' then handleAction action target params cp
               else if t = ''status'' then handleStatus action target params cp
               else if t = ''team'' then handleTeam action target params cp
               else if t = ''admin'' then handleAdminCommand action target params cp
               else console_error (''Unknown command type: '' @ t) cp))"

subsection \<open>Free-text commands: \<open>processNaturalCommand\<close>\<close>

text \<open>
  Command texts are taken to be ASCII: \<open>toLowerCase\<close> maps \<open>A\<close>..\<open>Z\<close> to \<open>a\<close>..\<open>z\<close>.
\<close>

definition toLowerCase :: "string \<Rightarrow> string" where
  "toLowerCase s =
     map (\<lambda>c. let n = (of_char c :: nat) in if 65 \<le> n \<and> n \<le> 90 then char_of (n + 32) else c) s"

text \<open>\<open>str.includes(w)\<close>: \<open>w\<close> occurs in \<open>str\<close> as a contiguous substring.\<close>

definition str_includes :: "string \<Rightarrow> string \<Rightarrow> bool" where
  "str_includes str w = sublist w str"

definition is_digit :: "char \<Rightarrow> bool" where
  "is_digit c = (let n = (of_char c :: nat) in 48 \<le> n \<and> n \<le> 57)"

text \<open>The ASCII characters that \<open>\s\<close> matches.\<close>

definition is_space :: "char \<Rightarrow> bool" where
  "is_space c = ((of_char c :: nat) \<in> {9, 10, 11, 12, 13, 32})"

text \<open>\<open>\s*(\d+)\<close> at the start of a string: the digits and what follows them.\<close>

definition match_number :: "string \<Rightarrow> (string \<times> string) option" where
  "match_number s =
     (let r = dropWhile is_space s; ds = takeWhile is_digit r
      in if ds = [] then None else Some (ds, dropWhile is_digit r))"

text \<open>
  The regular expression \<open>(?:bot|bots?)\s*(\d+)\<close> anchored at the start of a string:
  the first alternative is tried first, the second adds an optional \<open>s\<close>.
\<close>

definition match_bot :: "string \<Rightarrow> (string \<times> string) option" where
  "match_bot s =
     (if prefix ''bot'' s
      then (case match_number (drop 3 s) of
              Some r \<Rightarrow> Some r
            | None \<Rightarrow> if prefix ''bots'' s then match_number (drop 4 s) else None)
      else None)"

text \<open>
  \<open>matchAll\<close>: the matches from left to right, each search resuming where the previous
  match ended. The first argument counts the characters still covered by the last match.
\<close>

fun match_all_bots :: "nat \<Rightarrow> string \<Rightarrow> string list" where
  "match_all_bots _ [] = []"
| "match_all_bots (Suc k) (c # cs) = match_all_bots k cs"
| "match_all_bots 0 (c # cs) =
     (case match_bot (c # cs) of
        Some (ds, rest) \<Rightarrow> (''Bot'' @ ds) # match_all_bots (length cs - length rest) cs
      | None \<Rightarrow> match_all_bots 0 cs)"

definition extractBotNames :: "command_processor \<Rightarrow> string \<Rightarrow> string list" where
  "extractBotNames cp cmd =
     (if str_includes cmd ''all bots'' then registered cp else match_all_bots 0 cmd)"

fun first_action :: "string \<Rightarrow> string \<Rightarrow> string list \<Rightarrow> extracted_action option" where
  "first_action cmd category [] = None"
| "first_action cmd category (a # as) =
     (if str_includes cmd a then Some \<lparr>action_type = category, action_name = a\<rparr>
      else first_action cmd category as)"

fun extractAction_loop :: "string \<Rightarrow> (string \<times> string list) list \<Rightarrow> extracted_action option" where
  "extractAction_loop cmd [] = None"
| "extractAction_loop cmd ((category, actions) # rest) =
     (case first_action cmd category actions of
        Some a \<Rightarrow> Some a
      | None \<Rightarrow> extractAction_loop cmd rest)"

definition extractAction :: "command_processor \<Rightarrow> string \<Rightarrow> extracted_action option" where
  "extractAction cp cmd = extractAction_loop cmd (commandCategories cp)"

text \<open>The loops of \<open>extractParameters\<close> overwrite: the last matching word wins.\<close>

definition last_included :: "string \<Rightarrow> string list \<Rightarrow> string option" where
  "last_included cmd ws = foldl (\<lambda>r w. if str_includes cmd w then Some w else r) None ws"

definition extractParameters :: "command_processor \<Rightarrow> string \<Rightarrow> parameters" where
  "extractParameters cp cmd =
     \<lparr> item = last_included cmd (parameter_items cp),
       quantity = last_included cmd (parameter_quantities cp) \<rparr>"

definition extractLocation :: "command_processor \<Rightarrow> string \<Rightarrow> string option" where
  "extractLocation cp cmd = find (str_includes cmd) (parameter_locations cp)"

definition parseNaturalCommand :: "command_processor \<Rightarrow> string \<Rightarrow> parsed_command" where
  "parseNaturalCommand cp cmd =
     (let commandLower = toLowerCase cmd
      in \<lparr> parsed_bots = extractBotNames cp commandLower,
           parsed_action = extractAction cp commandLower,
           parsed_parameters = extractParameters cp commandLower,
           parsed_location = extractLocation cp commandLower,
           originalCommand = cmd \<rparr>)"

definition initializeTaskTracking ::
  "string \<Rightarrow> parsed_command \<Rightarrow> analysis \<Rightarrow> command_processor \<Rightarrow> command_processor" where
  "initializeTaskTracking taskId parsedCommand an cp =
     (let info = \<lparr> command = originalCommand parsedCommand,
                    startTime = clock cp,
                    task_bots = parsed_bots parsedCommand,
                    task_action = parsed_action parsedCommand,
                    task_parameters = parsed_parameters parsedCommand,
                    task_location = parsed_location parsedCommand,
                    task_analysis = an,
                    status = ''initialized'',
                    currentStep = 0,
                    totalSteps = length (step_by_step_plan an),
                    progressInterval = False \<rparr>
      in cp\<lparr> activeTasks := map_set (activeTasks cp) taskId info,
              taskProgress := map_set (taskProgress cp) taskId
                 (initial_progress (parsed_bots parsedCommand) (length (step_by_step_plan an))),
              taskUpdates := map_set (taskUpdates cp) taskId [] \<rparr>)"

definition startProgressTracking :: "string \<Rightarrow> command_processor \<Rightarrow> command_processor" where
  "startProgressTracking taskId cp =
     (case map_get (activeTasks cp) taskId of
        None \<Rightarrow> cp
      | Some info \<Rightarrow> cp\<lparr>activeTasks := map_set (activeTasks cp) taskId (info\<lparr>progressInterval := True\<rparr>)\<rparr>)"

text \<open>
  \<open>updateTaskStatus\<close> records the status and the given overall value and clears the
  timer; the final report it prints is not modelled.
\<close>

definition updateTaskStatus ::
  "string \<Rightarrow> string \<Rightarrow> jsnum \<Rightarrow> command_processor \<Rightarrow> command_processor" where
  "updateTaskStatus taskId st prog cp =
     (case (map_get (activeTasks cp) taskId, map_get (taskProgress cp) taskId) of
        (Some info, Some p) \<Rightarrow>
          cp\<lparr> activeTasks := map_set (activeTasks cp) taskId
                   (info\<lparr>status := st, progressInterval := False\<rparr>),
              taskProgress := map_set (taskProgress cp) taskId (p\<lparr>overall := prog\<rparr>) \<rparr>
      | _ \<Rightarrow> cp)"

text \<open>
  \<open>executeParsedCommand\<close> is called but defined nowhere in the sources: it is the
  parameter \<open>exec\<close>, which returns a result or throws (\<open>Inl\<close>) and may change the
  processor. A throw marks the task failed with its last overall value and is rethrown.
\<close>

type_synonym executor =
  "parsed_command \<Rightarrow> string \<Rightarrow> command_processor \<Rightarrow> (string + bool) \<times> command_processor"

definition executeWithProgressTracking ::
  "executor \<Rightarrow> parsed_command \<Rightarrow> string \<Rightarrow> string \<Rightarrow> command_processor
     \<Rightarrow> (string + bool) \<times> command_processor" where
  "executeWithProgressTracking exec parsedCommand user taskId cp =
     (case exec parsedCommand user (startProgressTracking taskId cp) of
        (Inr result, cp') \<Rightarrow> (Inr result, updateTaskStatus taskId ''completed'' (Fin 100) cp')
      | (Inl err, cp') \<Rightarrow>
          (Inl err,
           updateTaskStatus taskId ''failed''
             (case map_get (taskProgress cp') taskId of Some p \<Rightarrow> overall p | None \<Rightarrow> NaN) cp'))"

text \<open>
  \<open>processNaturalCommand\<close>: parse, analyse, create the task, run it. \<open>generateTaskId\<close>
  draws on the clock and a random number; the id it returns is the parameter \<open>taskId\<close>.
  \<open>sendCommandAnalysis\<close>, called between the creation of the task and its execution to
  send a report, is not among the sources and is left out.
\<close>

definition processNaturalCommand ::
  "(parsed_command \<Rightarrow> analysis) \<Rightarrow> executor \<Rightarrow> string \<Rightarrow> string \<Rightarrow> string \<Rightarrow> command_processor
     \<Rightarrow> (string + bool) \<times> command_processor" where
  "processNaturalCommand analyzeCommand exec taskId cmd user cp =
     (let cp1 = console_log (''Processing natural command: '' @ cmd @ '' from '' @ user) cp;
          parsedCommand = parseNaturalCommand cp1 cmd;
          an = analyzeCommand parsedCommand;
          cp2 = initializeTaskTracking taskId parsedCommand an cp1
      in executeWithProgressTracking exec parsedCommand user taskId cp2)"

text \<open>
  \<open>updateProgress\<close>, the body of the one-second timer: recompute the three dimensions
  and the overall value, advance the current step, store the update. The printed report
  is not modelled. \<open>calculateBotProgress\<close>, \<open>getCurrentResourceCount\<close>,
  \<open>getCurrentLocation\<close> and \<open>calculateDistance\<close> are called but not defined in the
  sources; what they return is given by the parameters \<open>calc\<close>, \<open>current\<close> and
  \<open>distance\<close>. The result is \<open>None\<close> when the task is unknown (the source then reads
  a property of \<open>undefined\<close>).
\<close>

definition getBotProgress :: "(string \<Rightarrow> jsnum) \<Rightarrow> command_processor \<Rightarrow> string \<Rightarrow> jsnum" where
  "getBotProgress calc cp b = (if set_has (registered cp) b then calc b else Fin 0)"

definition recompute ::
  "(string \<Rightarrow> jsnum) \<Rightarrow> (string \<Rightarrow> jsnum) \<Rightarrow> jsnum \<Rightarrow> command_processor \<Rightarrow> taskInfo
     \<Rightarrow> progress \<Rightarrow> progress" where
  "recompute calc current distance cp info p =
     (let p1 = p\<lparr>bots := foldl (\<lambda>m b. map_set m b (getBotProgress calc cp b)) (bots p) (task_bots info)\<rparr>;
          p2 = p1\<lparr>resources := getResourceProgress current (required_materials (task_analysis info))\<rparr>;
          p3 = p2\<lparr>coordinates :=
                   getCoordinateProgress (task_location info) distance (plan_distance (task_analysis info))\<rparr>
      in p3\<lparr>overall := calculateOverallProgress p3\<rparr>)"

definition updateProgress ::
  "(string \<Rightarrow> jsnum) \<Rightarrow> (string \<Rightarrow> jsnum) \<Rightarrow> jsnum \<Rightarrow> string \<Rightarrow> command_processor
     \<Rightarrow> command_processor option" where
  "updateProgress calc current distance taskId cp =
     (case (map_get (activeTasks cp) taskId, map_get (taskProgress cp) taskId,
            map_get (taskUpdates cp) taskId) of
        (Some info, Some p, Some ups) \<Rightarrow>
          (let p' = recompute calc current distance cp info p;
               info' = (if js_ge (overall p')
                              (js_mul (Fin (real (currentStep info + 1)))
                                      (js_div (Fin 100) (Fin (real (totalSteps info)))))
                        then info\<lparr>currentStep := currentStep info + 1\<rparr> else info);
               up = \<lparr> update_timestamp = clock cp, update_progress = overall p',
                      update_botProgress = bots p', update_resourceProgress = resources p',
                      update_coordinateProgress = coordinates p' \<rparr>
           in Some (cp\<lparr> activeTasks := map_set (activeTasks cp) taskId info',
                         taskProgress := map_set (taskProgress cp) taskId p',
                         taskUpdates := map_set (taskUpdates cp) taskId (ups @ [up]) \<rparr>))
      | _ \<Rightarrow> None)"

section \<open>The agent (class BotProperties)\<close>

subsection \<open>The game client\<close>

text \<open>
  Positions are points of the integer block grid, and a distance is compared through its
  square: \<open>p.distanceTo(q) < 3\<close> is \<open>dist2 p q < 9\<close>.
\<close>

type_synonym vec3 = "int \<times> int \<times> int"

definition dist2 :: "vec3 \<Rightarrow> vec3 \<Rightarrow> int" where
  "dist2 p q =
     (case (p, q) of ((x, y, z), (x', y', z')) \<Rightarrow>
        (x - x') * (x - x') + (y - y') * (y - y') + (z - z') * (z - z'))"

text \<open>
  The goals of the path-finding library, as the class reads them: the constructor, the
  \<open>destination\<close> it compares in \<open>setGoal\<close> and \<open>gatherWood\<close>, and the \<open>entity\<close> it compares
  in \<open>handleFollowing\<close>.
\<close>

datatype goal_kind = GoalNear | GoalGetToBlock | GoalFollow

record goal =
  kind :: goal_kind
  destination :: "vec3 option"
  goal_entity :: "nat option"
  goal_range :: int

definition new_GoalGetToBlock :: "vec3 \<Rightarrow> goal" where
  "new_GoalGetToBlock p =
     \<lparr>kind = GoalGetToBlock, destination = Some p, goal_entity = None, goal_range = 0\<rparr>"

definition new_GoalNear :: "vec3 \<Rightarrow> int \<Rightarrow> goal" where
  "new_GoalNear p r = \<lparr>kind = GoalNear, destination = Some p, goal_entity = None, goal_range = r\<rparr>"


text \<open>
  What the agent can observe of its game client (\<open>mineflayerBot\<close>): whether it has
  spawned, position and vitals, the inventory stacks, held item and armour, time of day,
  the path-finder's active goal, the blocks around it, the other agents whose client has
  an entity (name, entity id, position), the clock (\<open>Date.now()\<close>), the sequence that
  \<open>Math.random()\<close> draws from, and the chat messages sent so far with their send times.
\<close>

record client =
  has_entity :: bool
  position :: vec3
  bot_health :: int
  bot_food :: int
  bot_saturation :: int
  items :: "(string \<times> nat) list"
  heldItem :: "string option"
  armor :: "string option list"
  isDay :: bool
  isSleeping :: bool
  pathfinder_goal :: "goal option"
  blocks :: "(vec3 \<times> string) list"
  peers :: "(string \<times> nat \<times> vec3) list"
  time_now :: int
  random_source :: "nat \<Rightarrow> real"
  random_used :: nat
  chat_sent :: "(int \<times> string) list"

text \<open>
  The client's primitives that act on the world. Each is a parameter: it returns the
  client after the action, or \<open>None\<close> when it throws or rejects. \<open>recipesFor\<close> tells
  whether a recipe for the item is known, \<open>plankRecipeFor\<close> whether a plank recipe uses
  the given log.
\<close>

record env =
  craft :: "string \<Rightarrow> nat \<Rightarrow> bool \<Rightarrow> client \<Rightarrow> client option"
  recipesFor :: "client \<Rightarrow> string \<Rightarrow> bool"
  plankRecipeFor :: "client \<Rightarrow> string \<Rightarrow> bool"
  dig :: "vec3 \<Rightarrow> client \<Rightarrow> client option"
  canDigBlock :: "client \<Rightarrow> vec3 \<Rightarrow> bool"
  equip :: "string \<Rightarrow> client \<Rightarrow> client option"
  consume :: "client \<Rightarrow> client option"
  sleep :: "vec3 \<Rightarrow> client \<Rightarrow> client option"
  tossStack :: "string \<Rightarrow> client \<Rightarrow> client option"
  pathfinder_setGoal :: "goal \<Rightarrow> client \<Rightarrow> client option"
  pathfinder_stop :: "client \<Rightarrow> client option"

text \<open>\<open>findInventoryItem\<close>: the first stack of the item, if any.\<close>

definition findInventoryItem :: "client \<Rightarrow> string \<Rightarrow> (string \<times> nat) option" where
  "findInventoryItem b nm = find (\<lambda>it. fst it = nm) (items b)"

fun nearest :: "vec3 \<Rightarrow> (vec3 \<times> string) list \<Rightarrow> (vec3 \<times> string) option" where
  "nearest p [] = None"
| "nearest p (c # cs) =
     (case nearest p cs of
        None \<Rightarrow> Some c
      | Some d \<Rightarrow> if dist2 p (fst c) \<le> dist2 p (fst d) then Some c else Some d)"

text \<open>\<open>findBlock({matching, maxDistance})\<close>: the nearest matching block within the distance.\<close>

definition findBlock :: "client \<Rightarrow> (string \<Rightarrow> bool) \<Rightarrow> int \<Rightarrow> (vec3 \<times> string) option" where
  "findBlock b matching maxDistance =
     nearest (position b)
       (filter (\<lambda>c. matching (snd c) \<and> dist2 (position b) (fst c) \<le> maxDistance * maxDistance)
               (blocks b))"


subsection \<open>The agent's state\<close>

datatype bot_state =
    Idle | Gathering_wood | Moving_to_sleep | Sleeping | Placing_crafting_table
  | Crafting_crafting_table | Crafting_tools | Moving_to_crafting_table | Following
  | Exploring | Mining

record equipment =
  hand :: "string option"
  head :: "string option"
  torso :: "string option"
  legs :: "string option"
  feet :: "string option"

text \<open>
  A call of a world-changing primitive, recorded in the order the agent makes them.
\<close>

datatype call =
    Stop | SetGoal goal | Craft string nat bool | Dig vec3 | Equip string | Consume
  | Sleep vec3 | Toss string

text \<open>
  The fields of a \<open>BotProperties\<close> object, its game client, and three records of what it
  did: \<open>calls\<close> (the primitives it invoked), \<open>errors\<close> (the lines of \<open>console.error\<close> and
  \<open>console.warn\<close>) and \<open>rejections\<close> (exceptions that ended an asynchronous method, which
  reject its promise and reach no caller).
\<close>

record agent =
  name :: string
  state :: bot_state
  inventory :: "(string, nat) jsmap"
  health :: int
  food :: int
  saturation :: int
  equipped :: equipment
  lastChatTime :: int
  chatCooldown :: int
  requiredWoodCount :: real
  hasCraftingTable :: bool
  needsBasicResources :: bool
  canEat :: bool
  canSleep :: bool
  targetBotToFollow :: "string option"
  followDistance :: int
  currentGoal :: "goal option"
  mineflayerBot :: client
  calls :: "call list"
  errors :: "string list"
  rejections :: "string list"

definition new_BotProperties :: "string \<Rightarrow> client \<Rightarrow> agent" where
  "new_BotProperties nm b =
     \<lparr> name = nm, state = Idle, inventory = [], health = 20, food = 20, saturation = 5,
       equipped = \<lparr>hand = None, head = None, torso = None, legs = None, feet = None\<rparr>,
       lastChatTime = 0, chatCooldown = 5000,
       requiredWoodCount = 20, hasCraftingTable = False, needsBasicResources = True,
       canEat = True, canSleep = True,
       targetBotToFollow = None, followDistance = 5,
       currentGoal = None, mineflayerBot = b, calls = [], errors = [], rejections = [] \<rparr>"

text \<open>
  How a method ends: it returns, it throws, or the evaluation was cut off because the
  bound on nested re-evaluations was used up. Each carries the agent as it then is.
\<close>

datatype outcome = Returns agent | Throws string agent | OutOfFuel agent

fun final :: "outcome \<Rightarrow> agent" where
  "final (Returns a) = a"
| "final (Throws e a) = a"
| "final (OutOfFuel a) = a"

text \<open>Whether an outcome is a throw, and the exception thrown.\<close>

fun throws :: "outcome \<Rightarrow> bool" where
  "throws (Throws e a) = True"
| "throws _ = False"

fun thrown :: "outcome \<Rightarrow> string" where
  "thrown (Throws e a) = e"
| "thrown _ = []"

text \<open>Sequencing: the rest of a method runs only if the call before it returned.\<close>

fun and_then :: "outcome \<Rightarrow> (agent \<Rightarrow> outcome) \<Rightarrow> outcome" where
  "and_then (Returns a) f = f a"
| "and_then (Throws e a) f = Throws e a"
| "and_then (OutOfFuel a) f = OutOfFuel a"

text \<open>
  An asynchronous method called without \<open>await\<close>: an exception inside it rejects the
  promise it returned and is not thrown to the caller. Every awaited primitive is taken
  to complete at once, so the method has run to its end when the caller goes on.
\<close>

fun detach :: "outcome \<Rightarrow> outcome" where
  "detach (Returns a) = Returns a"
| "detach (Throws e a) = Returns (a\<lparr>rejections := rejections a @ [e]\<rparr>)"
| "detach (OutOfFuel a) = OutOfFuel a"

definition console_err :: "string \<Rightarrow> agent \<Rightarrow> agent" where
  "console_err msg a = a\<lparr>errors := errors a @ [msg]\<rparr>"

text \<open>
  Invoking a primitive: the call is recorded; if the primitive succeeds the client is
  replaced by the one it returns, and the flag tells whether it succeeded.
\<close>

definition invoke :: "call \<Rightarrow> (client \<Rightarrow> client option) \<Rightarrow> agent \<Rightarrow> bool \<times> agent" where
  "invoke c f a =
     (let a' = a\<lparr>calls := calls a @ [c]\<rparr>
      in case f (mineflayerBot a) of
           None \<Rightarrow> (False, a')
         | Some b \<Rightarrow> (True, a'\<lparr>mineflayerBot := b\<rparr>))"

definition Math_random :: "agent \<Rightarrow> real \<times> agent" where
  "Math_random a =
     (let b = mineflayerBot a
      in (random_source b (random_used b), a\<lparr>mineflayerBot := b\<lparr>random_used := random_used b + 1\<rparr>\<rparr>))"

text \<open>\<open>mineflayerBot.chat(message)\<close>: the message is sent at the current time.\<close>

definition bot_chat :: "string \<Rightarrow> agent \<Rightarrow> agent" where
  "bot_chat msg a =
     (let b = mineflayerBot a
      in a\<lparr>mineflayerBot := b\<lparr>chat_sent := chat_sent b @ [(time_now b, msg)]\<rparr>\<rparr>)"

text \<open>
  \<open>chat(message)\<close>, the method with the cooldown. In the messages of the model the
  numbers and positions that the source interpolates are left out.
\<close>

definition chat :: "string \<Rightarrow> agent \<Rightarrow> agent" where
  "chat msg a =
     (if time_now (mineflayerBot a) - lastChatTime a > chatCooldown a
      then (bot_chat msg a)\<lparr>lastChatTime := time_now (mineflayerBot a)\<rparr>
      else a)"

text \<open>
  \<open>give(itemName, targetBot)\<close>. The first argument of the model tells whether the target
  is an agent with a game client (the method returns at once otherwise).
\<close>

definition give :: "env \<Rightarrow> bool \<Rightarrow> string \<Rightarrow> string \<Rightarrow> agent \<Rightarrow> agent" where
  "give E target_ok itemName targetName a =
     (if \<not> target_ok then a
      else case findInventoryItem (mineflayerBot a) itemName of
             Some it \<Rightarrow>
               (case invoke (Toss itemName) (tossStack E itemName) a of
                  (False, a1) \<Rightarrow>
                    console_err (''Error giving '' @ itemName) (bot_chat (''Error giving '' @ itemName) a1)
                | (True, a1) \<Rightarrow>
                    bot_chat (''Giving '' @ itemName @ '' to '' @ targetName @ ''!'') a1)
           | None \<Rightarrow> bot_chat (''I don't have '' @ itemName @ ''.'') a)"

text \<open>
  The events of an agent's chat history: at a given time some method is called. Running
  an event sets the clock and calls the method.
\<close>

datatype chat_event = CallChat string | CallGive bool string string

fun run_event :: "env \<Rightarrow> int \<times> chat_event \<Rightarrow> agent \<Rightarrow> agent" where
  "run_event E (t, CallChat msg) a = chat msg (a\<lparr>mineflayerBot := (mineflayerBot a)\<lparr>time_now := t\<rparr>\<rparr>)"
| "run_event E (t, CallGive ok it tgt) a =
     give E ok it tgt (a\<lparr>mineflayerBot := (mineflayerBot a)\<lparr>time_now := t\<rparr>\<rparr>)"

definition run_events :: "env \<Rightarrow> (int \<times> chat_event) list \<Rightarrow> agent \<Rightarrow> agent" where
  "run_events E evs a = foldl (\<lambda>x ev. run_event E ev x) a evs"

text \<open>Every message is sent more than \<open>cooldown\<close> after the message before it.\<close>

fun spaced :: "int \<Rightarrow> (int \<times> string) list \<Rightarrow> bool" where
  "spaced cooldown [] = True"
| "spaced cooldown [m] = True"
| "spaced cooldown (m # m' # ms) = (fst m' - fst m > cooldown \<and> spaced cooldown (m' # ms))"

subsection \<open>Navigation goals\<close>

text \<open>
  The test at the head of \<open>setGoal\<close>: both goals present, same constructor, and
  destinations with the same JSON text.
\<close>

definition same_goal :: "goal option \<Rightarrow> goal option \<Rightarrow> bool" where
  "same_goal cur new =
     (case (cur, new) of
        (Some c, Some g) \<Rightarrow> kind c = kind g \<and> destination c = destination g
      | _ \<Rightarrow> False)"

definition setGoal :: "env \<Rightarrow> goal option \<Rightarrow> agent \<Rightarrow> outcome" where
  "setGoal E g a =
     (if same_goal (currentGoal a) g then Returns a
      else
        (case (if pathfinder_goal (mineflayerBot a) \<noteq> None
               then invoke Stop (pathfinder_stop E) a else (True, a)) of
           (False, a1) \<Rightarrow> Throws ''pathfinder.stop'' a1
         | (True, a1) \<Rightarrow>
             (let a2 = a1\<lparr>currentGoal := g\<rparr>
              in case g of
                   None \<Rightarrow> Returns a2
                 | Some gl \<Rightarrow>
                     (case invoke (SetGoal gl) (pathfinder_setGoal E gl) a2 of
                        (True, a3) \<Rightarrow> Returns a3
                      | (False, a3) \<Rightarrow>
                          Returns ((console_err ''Error setting pathfinder goal'' a3)
                                     \<lparr>currentGoal := None, state := Idle\<rparr>)))))"

text \<open>The number of goals submitted to the path-finder among some calls.\<close>

definition submissions :: "call list \<Rightarrow> nat" where
  "submissions cs = length (filter (\<lambda>c. case c of SetGoal _ \<Rightarrow> True | _ \<Rightarrow> False) cs)"

subsection \<open>Survival: eating and sleeping\<close>





text \<open>
  The condition of the first branch of \<open>handleSleeping\<close>, as written:
  \<open>!this.canSleep || !this.mineflayerBot.time.isDay && !this.mineflayerBot.isSleeping\<close>
  (\<open>&&\<close> binds tighter than \<open>||\<close>).
\<close>

definition sleep_check :: "agent \<Rightarrow> bool" where
  "sleep_check a =
     (\<not> canSleep a \<or> (\<not> isDay (mineflayerBot a) \<and> \<not> isSleeping (mineflayerBot a)))"

definition is_bed :: "string \<Rightarrow> bool" where
  "is_bed n = (n = ''red_bed'')"

definition complain :: "real \<Rightarrow> string \<Rightarrow> agent \<Rightarrow> agent" where
  "complain chance msg a = (case Math_random a of (r, a1) \<Rightarrow> if r < chance then chat msg a1 else a1)"

definition handleSleeping :: "env \<Rightarrow> agent \<Rightarrow> outcome" where
  "handleSleeping E a =
     (let b = mineflayerBot a
      in if sleep_check a then
           (case findInventoryItem b ''red_bed'' of
              Some bed \<Rightarrow>
                (case findBlock b is_bed 16 of
                   Some bedBlock \<Rightarrow>
                     setGoal E (Some (new_GoalGetToBlock (fst bedBlock))) (a\<lparr>state := Moving_to_sleep\<rparr>)
                 | None \<Rightarrow> Returns (complain (2 / 10) ''It's getting dark, I need a bed!'' a))
            | None \<Rightarrow>
                Returns (complain (2 / 10) ''I need wool and wood to craft a bed for the night.'' a))
         else if isSleeping b then Returns a
         else if state a = Moving_to_sleep \<and> pathfinder_goal b = None then
           (case findBlock b is_bed 3 of
              Some bedBlock \<Rightarrow>
                if dist2 (position b) (fst bedBlock) < 9 then
                  (case invoke (Sleep (fst bedBlock)) (sleep E (fst bedBlock)) a of
                     (True, a1) \<Rightarrow> Returns (a1\<lparr>state := Sleeping\<rparr>)
                   | (False, a1) \<Rightarrow>
                       setGoal E None
                         ((chat ''Couldn't sleep right now.'' (console_err ''Error trying to sleep'' a1))
                            \<lparr>state := Idle\<rparr>))
                else setGoal E None (a\<lparr>state := Idle\<rparr>)
            | None \<Rightarrow> setGoal E None (a\<lparr>state := Idle\<rparr>))
         else Returns a)"

subsection \<open>The resource progression planner\<close>

definition woodItems :: "string list" where
  "woodItems = [''oak_log'', ''spruce_log'', ''birch_log'', ''jungle_log'', ''acacia_log'',
                ''dark_oak_log'']"

definition is_wood :: "string \<Rightarrow> bool" where
  "is_wood n = (n \<in> set woodItems)"

text \<open>The wood-equivalent count: a log counts 1, a stack of planks a quarter of its size.\<close>

definition woodCount :: "client \<Rightarrow> real" where
  "woodCount b =
     foldl (\<lambda>w it. if is_wood (fst it) then w + real (snd it)
                    else if suffix ''_planks'' (fst it) then w + real (snd it) / 4
                    else w)
           0 (items b)"

definition is_table :: "string \<Rightarrow> bool" where
  "is_table n = (n = ''crafting_table'')"

text \<open>A crafting table is in the inventory or placed within 16 blocks.\<close>

definition station_exists :: "client \<Rightarrow> bool" where
  "station_exists b =
     (findInventoryItem b ''crafting_table'' \<noteq> None \<or> findBlock b is_table 16 \<noteq> None)"

text \<open>The branch \<open>woodCount < requiredWoodCount\<close> of \<open>handleBasicResourceGathering\<close>.\<close>

definition gather_stage :: "env \<Rightarrow> agent \<Rightarrow> outcome" where
  "gather_stage E a =
     (if state a \<noteq> Gathering_wood then setGoal E None (a\<lparr>state := Gathering_wood\<rparr>)
      else Returns a)"

text \<open>Crafting planks from logs, the inner part of the branch below.\<close>

definition craft_planks :: "env \<Rightarrow> nat \<Rightarrow> agent \<Rightarrow> outcome" where
  "craft_planks E planksCount a =
     (case find (\<lambda>it. is_wood (fst it)) (items (mineflayerBot a)) of
        None \<Rightarrow> Returns ((console_err ''Need planks but no logs found to craft them.'' a)\<lparr>state := Idle\<rparr>)
      | Some logItem \<Rightarrow>
          if plankRecipeFor E (mineflayerBot a) (fst logItem) then
            (let neededPlanks = 4 - int planksCount;
                 neededLogs = \<lceil>real_of_int neededPlanks / 4\<rceil>;
                 logsToCraft = min (int (snd logItem)) neededLogs
             in if logsToCraft > 0 then
                  (case invoke (Craft ''oak_planks'' (nat logsToCraft) False)
                               (craft E ''oak_planks'' (nat logsToCraft) False) a of
                     (True, a1) \<Rightarrow> Returns (a1\<lparr>state := Crafting_crafting_table\<rparr>)
                   | (False, a1) \<Rightarrow> Returns ((console_err ''Error crafting planks'' a1)\<lparr>state := Idle\<rparr>))
                else Returns (a\<lparr>state := Idle\<rparr>))
          else Returns ((console_err ''Could not find plank crafting recipe'' a)\<lparr>state := Idle\<rparr>))"

text \<open>
  The branch \<open>!this.hasCraftingTable\<close> of \<open>handleBasicResourceGathering\<close>; \<open>wood\<close> is the
  count computed at its start and \<open>craftingTableItem\<close> the inventory lookup.
\<close>

definition station_stage :: "env \<Rightarrow> real \<Rightarrow> (string \<times> nat) option \<Rightarrow> agent \<Rightarrow> outcome" where
  "station_stage E wood craftingTableItem a =
     (if craftingTableItem \<noteq> None then
        (if state a \<noteq> Placing_crafting_table
         then Returns ((chat ''I have a crafting table, but don't know where to place it yet!''
                          (console_err ''Placing crafting table logic not yet implemented.''
                             (a\<lparr>state := Placing_crafting_table\<rparr>)))
                       \<lparr>state := Idle\<rparr>)
         else Returns a)
      else if state a \<noteq> Crafting_crafting_table then
        (let planksCount = (case map_get (inventory a) ''oak_planks'' of None \<Rightarrow> 0 | Some c \<Rightarrow> c)
         in if planksCount \<ge> 4 then
              (if recipesFor E (mineflayerBot a) ''crafting_table'' then
                 (case invoke (Craft ''crafting_table'' 1 False) (craft E ''crafting_table'' 1 False) a of
                    (True, a1) \<Rightarrow>
                      Returns (chat ''I crafted a crafting table!''
                                 (a1\<lparr>hasCraftingTable := True, state := Idle\<rparr>))
                  | (False, a1) \<Rightarrow>
                      Returns ((chat ''Crafting failed for some reason.''
                                  (console_err ''Error crafting crafting table'' a1))
                               \<lparr>state := Idle\<rparr>))
               else Returns ((chat ''Hmm, I can't figure out how to craft a crafting table.''
                                (console_err ''Could not find crafting recipe for crafting table.'' a))
                             \<lparr>state := Idle\<rparr>))
            else if wood > 0 \<and> planksCount < 4 then craft_planks E planksCount a
            else Returns ((chat ''I need wood logs to get started.'' a)\<lparr>state := Gathering_wood\<rparr>))
      else Returns a)"

definition hasWoodAxe :: "client \<Rightarrow> bool" where
  "hasWoodAxe b = (findInventoryItem b ''wooden_axe'' \<noteq> None)"

definition hasWoodPickaxe :: "client \<Rightarrow> bool" where
  "hasWoodPickaxe b = (findInventoryItem b ''wooden_pickaxe'' \<noteq> None)"

definition is_tool :: "string \<Rightarrow> bool" where
  "is_tool n = (n = ''wooden_axe'' \<or> n = ''wooden_pickaxe'')"

definition neededTools :: "client \<Rightarrow> string list" where
  "neededTools b =
     (if findInventoryItem b ''wooden_axe'' = None then [''wooden_axe''] else []) @
     (if findInventoryItem b ''wooden_pickaxe'' = None then [''wooden_pickaxe''] else [])"

text \<open>
  The loop of \<open>craftBasicTools\<close> over the needed tools. The flag tells whether the loop
  ran to its end; it is false when a \<open>return\<close> inside the loop left the method.
\<close>

fun craft_each :: "env \<Rightarrow> string list \<Rightarrow> agent \<Rightarrow> bool \<times> agent" where
  "craft_each E [] a = (True, a)"
| "craft_each E (toolName # rest) a =
     (if recipesFor E (mineflayerBot a) toolName then
        (case invoke (Craft toolName 1 True) (craft E toolName 1 True) a of
           (True, a1) \<Rightarrow> craft_each E rest a1
         | (False, a1) \<Rightarrow>
             (False, (chat (''Failed to craft '' @ toolName @ ''.'')
                        (console_err (''Error crafting '' @ toolName) a1))\<lparr>state := Idle\<rparr>))
      else (False, (chat (''Don't know how to craft '' @ toolName @ ''.'')
                      (console_err (''Could not find crafting recipe for '' @ toolName) a))
                   \<lparr>state := Idle\<rparr>))"

text \<open>
  \<open>handleBasicResourceGathering\<close> and \<open>craftBasicTools\<close> call each other: the first to
  craft the missing tools, the second to re-evaluate the plan once all are crafted. The
  first argument bounds the depth of these nested calls.
\<close>

fun handleBasicResourceGathering :: "nat \<Rightarrow> env \<Rightarrow> agent \<Rightarrow> outcome"
  and craftBasicTools :: "nat \<Rightarrow> env \<Rightarrow> agent \<Rightarrow> outcome" where
  "handleBasicResourceGathering 0 E a = OutOfFuel a"
| "handleBasicResourceGathering (Suc n) E a =
     (if \<not> needsBasicResources a then Returns a
      else
        (let b = mineflayerBot a;
             wood = woodCount b;
             craftingTableItem = findInventoryItem b ''crafting_table'';
             a1 = a\<lparr>hasCraftingTable := station_exists b\<rparr>
         in if wood < requiredWoodCount a1 then gather_stage E a1
            else if \<not> hasCraftingTable a1 then station_stage E wood craftingTableItem a1
            else if \<not> hasWoodAxe b \<or> \<not> hasWoodPickaxe b then
              (if state a1 \<noteq> Crafting_tools
               then detach (craftBasicTools n E (a1\<lparr>state := Crafting_tools\<rparr>))
               else Returns a1)
            else Returns (chat ''Okay, I'm geared up with basic tools!''
                            (a1\<lparr>needsBasicResources := False, state := Idle\<rparr>))))"
| "craftBasicTools 0 E a = OutOfFuel a"
| "craftBasicTools (Suc n) E a =
     (let b = mineflayerBot a
      in if neededTools b = [] then Returns (a\<lparr>state := Idle\<rparr>)
         else case findBlock b is_table 3 of
                None \<Rightarrow>
                  Returns ((chat ''I need a crafting table to craft tools.''
                              (console_err ''Cannot craft tools, no crafting table found nearby.'' a))
                           \<lparr>state := Idle\<rparr>)
              | Some craftingTableBlock \<Rightarrow>
                  if dist2 (position b) (fst craftingTableBlock) > 9 then
                    and_then (setGoal E (Some (new_GoalNear (fst craftingTableBlock) 1)) a)
                      (\<lambda>a1. Returns (a1\<lparr>state := Moving_to_crafting_table\<rparr>))
                  else
                    (case craft_each E (neededTools b) a of
                       (False, a1) \<Rightarrow> Returns a1
                     | (True, a1) \<Rightarrow> detach (handleBasicResourceGathering n E (a1\<lparr>state := Idle\<rparr>))))"


subsection \<open>Following\<close>


text \<open>
  \<open>setTargetBotToFollow\<close>; the flag tells whether the argument is another
  \<open>BotProperties\<close> object.
\<close>

definition setTargetBotToFollow :: "bool \<Rightarrow> string \<Rightarrow> agent \<Rightarrow> agent" where
  "setTargetBotToFollow valid t a =
     (if valid then (chat (''Following '' @ t @ ''!'') (a\<lparr>targetBotToFollow := Some t\<rparr>))\<lparr>state := Following\<rparr>
      else chat ''Invalid bot specified to follow.'' a)"



subsection \<open>The tick\<close>




section \<open>Predicates used in the statements\<close>

text \<open>Every entry of a dimension is a finite number between 0 and 100.\<close>

definition in_range :: "(string, jsnum) jsmap \<Rightarrow> bool" where
  "in_range m = list_all (\<lambda>e. case snd e of Fin x \<Rightarrow> 0 \<le> x \<and> x \<le> 100 | _ \<Rightarrow> False) m"

text \<open>The finite values of a dimension, and their mean.\<close>

definition finite_values :: "(string, jsnum) jsmap \<Rightarrow> real list" where
  "finite_values m = map (\<lambda>e. case snd e of Fin x \<Rightarrow> x | _ \<Rightarrow> 0) m"

definition mean :: "(string, jsnum) jsmap \<Rightarrow> real" where
  "mean m = sum_list (finite_values m) / real (length m)"

text \<open>The order on numbers: \<open>a <= b\<close>, false when either side is NaN.\<close>

definition js_le :: "jsnum \<Rightarrow> jsnum \<Rightarrow> bool" where
  "js_le a b = js_ge b a"

text \<open>Two dimension maps with the same keys in the same order, no entry lower in the second.\<close>

definition entries_le :: "(string, jsnum) jsmap \<Rightarrow> (string, jsnum) jsmap \<Rightarrow> bool" where
  "entries_le m m' = list_all2 (\<lambda>e e'. fst e = fst e' \<and> js_le (snd e) (snd e')) m m'"

definition well_formed :: "progress \<Rightarrow> bool" where
  "well_formed p =
     (bots p \<noteq> [] \<and> resources p \<noteq> [] \<and> coordinates p \<noteq> [] \<and>
      in_range (bots p) \<and> in_range (resources p) \<and> in_range (coordinates p))"

text \<open>A number is NaN or at most 100.\<close>

definition at_most_100 :: "jsnum \<Rightarrow> bool" where
  "at_most_100 v = (v = NaN \<or> js_le v (Fin 100))"

text \<open>
  A task for one unregistered agent that needs ten oak logs and has a destination ten
  blocks away, used to run \<open>recompute\<close> on concrete inputs.
\<close>

definition sample_processor :: command_processor where
  "sample_processor = new_CommandProcessor [] [] [] [] [] 0 (\<lambda>_. (0, 0, 0))"

definition sample_task :: taskInfo where
  "sample_task =
     \<lparr> command = ''bot 1 collect oak_log at village'', startTime = 0, task_bots = [''Bot1''],
       task_action = Some \<lparr>action_type = ''gathering'', action_name = ''collect''\<rparr>,
       task_parameters = \<lparr>item = Some ''oak_log'', quantity = None\<rparr>,
       task_location = Some ''village'',
       task_analysis = \<lparr> step_by_step_plan = [''walk'', ''collect''],
                         required_materials = [(''oak_log'', Fin 10)],
                         plan_distance = Fin 10 \<rparr>,
       status = ''initialized'', currentStep = 0, totalSteps = 2, progressInterval = True \<rparr>"

definition sample_recompute :: "real \<Rightarrow> progress \<Rightarrow> progress" where
  "sample_recompute distance p =
     recompute (\<lambda>_. Fin 0) (\<lambda>_. Fin 0) (Fin distance) sample_processor sample_task p"

text \<open>
  A processor whose command table marks \<open>ban\<close> as admin-only, with \<open>CodeDevPro\<close> its only
  admin, and stand-ins for the two methods that are missing from the sources.
\<close>

definition privileged_processor :: command_processor where
  "privileged_processor =
     new_CommandProcessor [(''ban'', \<lparr>admin_only = True\<rparr>)] [(''admin'', [''ban'', ''kick''])]
       [''steve''] [] [] 0 (\<lambda>_. (0, 0, 0))"

definition sample_analysis :: "parsed_command \<Rightarrow> analysis" where
  "sample_analysis pc = \<lparr>step_by_step_plan = [''ban''], required_materials = [], plan_distance = Fin 0\<rparr>"

definition sample_exec :: executor where
  "sample_exec pc user cp = (Inr True, cp)"

definition ban_command :: commandData where
  "ban_command =
     \<lparr> cmd_type = ''admin'', cmd_action = ''ban'', cmd_target = ''steve'',
       cmd_params = \<lparr> message = [], botName = [], targetBot = [], admin_command = [],
                      admin_name = [], location_name = [] \<rparr>,
       username = ''mallory'' \<rparr>"

text \<open>The calls an agent made between two of its states.\<close>

definition new_calls :: "agent \<Rightarrow> agent \<Rightarrow> call list" where
  "new_calls a a' = drop (length (calls a)) (calls a')"

definition is_craft :: "call \<Rightarrow> bool" where
  "is_craft c = (case c of Craft _ _ _ \<Rightarrow> True | _ \<Rightarrow> False)"

definition is_tool_craft :: "call \<Rightarrow> bool" where
  "is_tool_craft c = (case c of Craft it _ _ \<Rightarrow> is_tool it | _ \<Rightarrow> False)"

text \<open>The tools of a batch that come after a given tool.\<close>

definition tools_after :: "string \<Rightarrow> string list \<Rightarrow> string list" where
  "tools_after t ts = tl (dropWhile (\<lambda>u. u \<noteq> t) ts)"

text \<open>
  A game client in daylight at the origin with an empty inventory, and a world in which
  every primitive succeeds: crafting adds the item, digging removes the block and adds a
  log, the path-finder stores and drops its goal.
\<close>

definition sample_client :: client where
  "sample_client =
     \<lparr> has_entity = True, position = (0, 0, 0), bot_health = 20, bot_food = 20,
       bot_saturation = 5, items = [], heldItem = None, armor = [None, None, None, None],
       isDay = True, isSleeping = False, pathfinder_goal = None, blocks = [], peers = [],
       time_now = 10000, random_source = (\<lambda>_. 9 / 10), random_used = 0, chat_sent = [] \<rparr>"

definition accepting_env :: env where
  "accepting_env =
     \<lparr> craft = (\<lambda>it n tbl b. Some (b\<lparr>items := items b @ [(it, n)]\<rparr>)),
       recipesFor = (\<lambda>b it. True),
       plankRecipeFor = (\<lambda>b it. True),
       dig = (\<lambda>p b. Some (b\<lparr>blocks := filter (\<lambda>c. fst c \<noteq> p) (blocks b),
                                items := items b @ [(''oak_log'', 1)]\<rparr>)),
       canDigBlock = (\<lambda>b p. True),
       equip = (\<lambda>it b. Some (b\<lparr>heldItem := Some it\<rparr>)),
       consume = (\<lambda>b. Some (b\<lparr>bot_food := 20\<rparr>)),
       sleep = (\<lambda>p b. Some (b\<lparr>isSleeping := True\<rparr>)),
       tossStack = (\<lambda>it b. Some b),
       pathfinder_setGoal = (\<lambda>g b. Some (b\<lparr>pathfinder_goal := Some g\<rparr>)),
       pathfinder_stop = (\<lambda>b. Some (b\<lparr>pathfinder_goal := None\<rparr>)) \<rparr>"


text \<open>The same world, except that crafting a wooden axe is rejected.\<close>

definition no_axe_env :: env where
  "no_axe_env =
     accepting_env\<lparr>craft := (\<lambda>it n tbl b. if it = ''wooden_axe'' then None
                                            else Some (b\<lparr>items := items b @ [(it, n)]\<rparr>))\<rparr>"



text \<open>
  An agent with sleeping switched off, at noon, carrying a bed, with a placed bed two
  blocks away.
\<close>

definition day_agent :: agent where
  "day_agent =
     (new_BotProperties ''Bot1''
        (sample_client\<lparr> items := [(''red_bed'', 1)], blocks := [((2, 0, 0), ''red_bed'')] \<rparr>))
       \<lparr> canSleep := False \<rparr>"

text \<open>
  An agent with 20 logs standing next to a placed crafting table, without tools.
\<close>

definition crafter :: agent where
  "crafter =
     new_BotProperties ''Bot1''
       (sample_client\<lparr> items := [(''oak_log'', 20)], blocks := [((1, 0, 0), ''crafting_table'')] \<rparr>)"

text \<open>
  The invariant of the cooldown: the messages sent so far are spaced, and the last one
  was sent at \<open>lastChatTime\<close>.
\<close>

definition chat_inv :: "agent \<Rightarrow> bool" where
  "chat_inv a =
     (spaced (chatCooldown a) (chat_sent (mineflayerBot a))
      \<and> (chat_sent (mineflayerBot a) \<noteq> [] \<longrightarrow>
           fst (last (chat_sent (mineflayerBot a))) = lastChatTime a))"

text \<open>
  If an outcome is a throw, it is the stop request of \<open>setGoal\<close> that threw: that request
  is the last call made, and the path-finder still has its goal.
\<close>

definition stuck :: "outcome \<Rightarrow> bool" where
  "stuck r =
     (throws r \<longrightarrow>
        thrown r = ''pathfinder.stop'' \<and> calls (final r) \<noteq> []
        \<and> last (calls (final r)) = Stop \<and> pathfinder_goal (mineflayerBot (final r)) \<noteq> None)"

section \<open>Facts about numbers\<close>

lemma js_add_NaN_right [simp]: "js_add a NaN = NaN"
  by (cases a) simp_all

lemma js_mul_NaN_right [simp]: "js_mul a NaN = NaN"
  by (cases a) simp_all

lemma js_min_NaN_right [simp]: "js_min a NaN = NaN"
  by (cases a) simp_all


lemma foldl_js_add_Fin:
  "foldl js_add (Fin a) (map Fin xs) = Fin (a + sum_list xs)"
  by (induction xs arbitrary: a) (simp_all add: add.assoc)

section \<open>Progress aggregation\<close>

lemma in_range_values: "in_range m \<Longrightarrow> map_values m = map Fin (finite_values m)"
  by (induction m) (auto simp: in_range_def map_values_def finite_values_def split: jsnum.splits)

lemma in_range_bounds: "in_range m \<Longrightarrow> x \<in> set (finite_values m) \<Longrightarrow> 0 \<le> x \<and> x \<le> 100"
  by (induction m) (auto simp: in_range_def finite_values_def split: jsnum.splits)

lemma sum_list_bounds:
  "(\<And>x. x \<in> set xs \<Longrightarrow> 0 \<le> x \<and> x \<le> (100::real)) \<Longrightarrow> 0 \<le> sum_list xs \<and> sum_list xs \<le> 100 * real (length xs)"
proof (induction xs)
  case Nil
  then show ?case by simp
next
  case (Cons x xs)
  then have "0 \<le> x \<and> x \<le> 100" and "0 \<le> sum_list xs \<and> sum_list xs \<le> 100 * real (length xs)"
    by simp_all
  then show ?case by simp
qed

lemma dimension_average_mean:
  assumes "in_range m" and "m \<noteq> []"
  shows "dimension_average m = Fin (mean m)"
proof -
  have "real (length m) \<noteq> 0" using assms(2) by simp
  then show ?thesis
    using assms(1)
    by (simp add: dimension_average_def in_range_values foldl_js_add_Fin map_size_def mean_def)
qed

lemma mean_bounds:
  assumes "in_range m" and "m \<noteq> []"
  shows "0 \<le> mean m \<and> mean m \<le> 100"
proof -
  let ?xs = "finite_values m"
  have len: "length ?xs = length m" by (simp add: finite_values_def)
  have pos: "0 < real (length m)" using assms(2) by simp
  have b: "0 \<le> sum_list ?xs \<and> sum_list ?xs \<le> 100 * real (length ?xs)"
    by (rule sum_list_bounds) (rule in_range_bounds [OF assms(1)])
  then have "0 \<le> sum_list ?xs / real (length m)"
    by simp
  moreover have "sum_list ?xs / real (length m) \<le> 100"
    using b pos len by (simp add: pos_divide_le_eq)
  ultimately show ?thesis by (simp add: mean_def)
qed

lemma overall_weighted:
  assumes "well_formed p"
  shows "calculateOverallProgress p =
           Fin (min (mean (bots p) * (4 / 10) + mean (resources p) * (3 / 10)
                     + mean (coordinates p) * (3 / 10)) 100)"
  using assms
  by (simp add: well_formed_def calculateOverallProgress_def dimension_average_mean Let_def
      weight_bots_def weight_resources_def weight_coordinates_def)

lemma entries_le_sum:
  "entries_le m m' \<Longrightarrow> in_range m \<Longrightarrow> in_range m' \<Longrightarrow>
     sum_list (finite_values m) \<le> sum_list (finite_values m') \<and> length m = length m'"
  unfolding entries_le_def
proof (induction m m' rule: list_all2_induct)
  case Nil
  then show ?case by (simp add: finite_values_def)
next
  case (Cons x xs y ys)
  then show ?case
    by (auto simp: in_range_def finite_values_def js_le_def split: jsnum.splits)
qed

lemma entries_le_mean:
  assumes "entries_le m m'" "in_range m" "in_range m'"
  shows "mean m \<le> mean m'"
proof -
  from entries_le_sum [OF assms]
  have s: "sum_list (finite_values m) \<le> sum_list (finite_values m')" and l: "length m = length m'"
    by simp_all
  show ?thesis unfolding mean_def l using s by (simp add: divide_right_mono)
qed

lemma js_min_at_most_100: "at_most_100 (js_min v (Fin 100))"
  by (cases v) (simp_all add: at_most_100_def js_le_def)

lemma list_all_map_set:
  "list_all P m \<Longrightarrow> P (k, v) \<Longrightarrow> list_all P (map_set m k v)"
  by (induction m) auto

lemma getResourceProgress_clamped_aux:
  "list_all (\<lambda>e. at_most_100 (snd e)) acc \<Longrightarrow>
   list_all (\<lambda>e. at_most_100 (snd e))
     (foldl (\<lambda>progress (resource, required).
              map_set progress resource
                (js_min (js_mul (js_div (current resource) required) (Fin 100)) (Fin 100)))
           acc materials)"
proof (induction materials arbitrary: acc)
  case Nil
  then show ?case by simp
next
  case (Cons x xs)
  obtain r q where x: "x = (r, q)" by (cases x)
  show ?case
    unfolding x foldl_Cons prod.case
    by (rule Cons.IH) (simp add: list_all_map_set Cons.prems js_min_at_most_100)
qed

lemma getResourceProgress_clamped:
  "list_all (\<lambda>e. at_most_100 (snd e)) (getResourceProgress current materials)"
  unfolding getResourceProgress_def by (rule getResourceProgress_clamped_aux) simp

lemma getCoordinateProgress_clamped:
  "list_all (\<lambda>e. at_most_100 (snd e)) (getCoordinateProgress location distance totalDistance)"
  by (simp add: getCoordinateProgress_def js_min_at_most_100 Let_def split: option.splits)

lemma overall_at_most_100: "at_most_100 (calculateOverallProgress p)"
  by (simp add: calculateOverallProgress_def Let_def js_min_at_most_100)



text \<open>
  Claim C1, as the code has it. The overall value is the weighted sum of the three
  dimension means (0.4, 0.3, 0.3) cut off at 100 from above only: it is NaN or at most
  100. Resource and coordinate entries are cut off at 100 from above when they are
  computed; nothing is cut off from below and agent entries are taken as they come. When
  the three maps are non-empty and every entry lies in [0, 100], the overall value lies
  in [0, 100], and between two such records it does not decrease if no entry decreases.
\<close>

theorem overall_progress_weighted_clamped_monotone:
  "at_most_100 (calculateOverallProgress p)
   \<and> list_all (\<lambda>e. at_most_100 (snd e)) (getResourceProgress current materials)
   \<and> list_all (\<lambda>e. at_most_100 (snd e)) (getCoordinateProgress location distance totalDistance)
   \<and> (well_formed p \<longrightarrow>
        calculateOverallProgress p =
          Fin (min (mean (bots p) * (4 / 10) + mean (resources p) * (3 / 10)
                    + mean (coordinates p) * (3 / 10)) 100)
        \<and> js_le (Fin 0) (calculateOverallProgress p)
        \<and> js_le (calculateOverallProgress p) (Fin 100))
   \<and> (well_formed p \<and> well_formed p' \<and> entries_le (bots p) (bots p')
        \<and> entries_le (resources p) (resources p') \<and> entries_le (coordinates p) (coordinates p')
        \<longrightarrow> js_le (calculateOverallProgress p) (calculateOverallProgress p'))"
proof -
  have range: "js_le (Fin 0) (calculateOverallProgress p) \<and> js_le (calculateOverallProgress p) (Fin 100)"
    if wf: "well_formed p"
  proof -
    from wf have a: "0 \<le> mean (bots p)" and b: "0 \<le> mean (resources p)"
      and c: "0 \<le> mean (coordinates p)"
      by (simp_all add: well_formed_def mean_bounds)
    then have "0 \<le> mean (bots p) * (4 / 10) + mean (resources p) * (3 / 10)
                    + mean (coordinates p) * (3 / 10)"
      by simp
    then show ?thesis
      by (simp add: overall_weighted [OF wf] js_le_def)
  qed
  have mono: "js_le (calculateOverallProgress p) (calculateOverallProgress p')"
    if wf: "well_formed p" and wf': "well_formed p'"
      and eb: "entries_le (bots p) (bots p')"
      and er: "entries_le (resources p) (resources p')"
      and ec: "entries_le (coordinates p) (coordinates p')"
  proof -
    have "mean (bots p) \<le> mean (bots p')" "mean (resources p) \<le> mean (resources p')"
      "mean (coordinates p) \<le> mean (coordinates p')"
      using wf wf' eb er ec by (simp_all add: well_formed_def entries_le_mean)
    then have "mean (bots p) * (4 / 10) + mean (resources p) * (3 / 10)
                 + mean (coordinates p) * (3 / 10)
               \<le> mean (bots p') * (4 / 10) + mean (resources p') * (3 / 10)
                 + mean (coordinates p') * (3 / 10)"
      by simp
    then show ?thesis
      by (simp add: overall_weighted [OF wf] overall_weighted [OF wf'] js_le_def min_le_iff_disj)
  qed
  show ?thesis
    using range mono overall_weighted
    by (simp add: overall_at_most_100 getResourceProgress_clamped getCoordinateProgress_clamped)
qed


theorem overall_progress_weighted_clamped_monotone_witness:
  "well_formed (sample_recompute 5 (initial_progress [''Bot1''] 2))
   \<and> well_formed (sample_recompute 2 (initial_progress [''Bot1''] 2))
   \<and> entries_le (bots (sample_recompute 5 (initial_progress [''Bot1''] 2)))
                (bots (sample_recompute 2 (initial_progress [''Bot1''] 2)))
   \<and> entries_le (resources (sample_recompute 5 (initial_progress [''Bot1''] 2)))
                (resources (sample_recompute 2 (initial_progress [''Bot1''] 2)))
   \<and> entries_le (coordinates (sample_recompute 5 (initial_progress [''Bot1''] 2)))
                (coordinates (sample_recompute 2 (initial_progress [''Bot1''] 2)))
   \<and> js_le (Fin 0) (calculateOverallProgress (sample_recompute 5 (initial_progress [''Bot1''] 2)))
   \<and> js_le (calculateOverallProgress (sample_recompute 5 (initial_progress [''Bot1''] 2)))
           (calculateOverallProgress (sample_recompute 2 (initial_progress [''Bot1''] 2)))"
proof -
  let ?p = "sample_recompute 5 (initial_progress [''Bot1''] 2)"
  let ?q = "sample_recompute 2 (initial_progress [''Bot1''] 2)"
  have h: "well_formed ?p \<and> well_formed ?q \<and> entries_le (bots ?p) (bots ?q)
           \<and> entries_le (resources ?p) (resources ?q) \<and> entries_le (coordinates ?p) (coordinates ?q)"
    by (simp add: sample_recompute_def recompute_def initial_progress_def sample_task_def
        sample_processor_def new_CommandProcessor_def getBotProgress_def set_has_def
        getResourceProgress_def getCoordinateProgress_def calculateOverallProgress_def
        dimension_average_def map_values_def map_size_def js_sub_def well_formed_def
        in_range_def entries_le_def js_le_def
        weight_bots_def weight_resources_def weight_coordinates_def Let_def)
  show ?thesis
    using h overall_progress_weighted_clamped_monotone [where p = ?p and p' = ?q]
    by blast
qed

text \<open>
  Claim C1 as stated fails. For the sample task, three recomputations with the agent 5,
  then 8, then 20 blocks from a destination 10 blocks away report 15, then 6, then -30:
  the value decreases while the task runs, and it leaves [0, 100].
\<close>

theorem overall_progress_decreases_and_goes_negative:
  "overall (sample_recompute 5 (initial_progress [''Bot1''] 2)) = Fin 15
   \<and> overall (sample_recompute 8 (sample_recompute 5 (initial_progress [''Bot1''] 2))) = Fin 6
   \<and> \<not> js_le (overall (sample_recompute 5 (initial_progress [''Bot1''] 2)))
             (overall (sample_recompute 8 (sample_recompute 5 (initial_progress [''Bot1''] 2))))
   \<and> overall (sample_recompute 20 (sample_recompute 8 (sample_recompute 5
               (initial_progress [''Bot1''] 2)))) = Fin (- 30)
   \<and> \<not> js_le (Fin 0) (overall (sample_recompute 20 (sample_recompute 8 (sample_recompute 5
               (initial_progress [''Bot1''] 2)))))
   \<and> map_get (coordinates (sample_recompute 20 (sample_recompute 8 (sample_recompute 5
               (initial_progress [''Bot1''] 2))))) ''travel'' = Some (Fin (- 100))"
  by (simp add: sample_recompute_def recompute_def initial_progress_def sample_task_def
      sample_processor_def new_CommandProcessor_def getBotProgress_def set_has_def
      getResourceProgress_def getCoordinateProgress_def calculateOverallProgress_def
      dimension_average_def map_values_def map_size_def js_sub_def js_le_def map_get_def
      weight_bots_def weight_resources_def weight_coordinates_def Let_def)

section \<open>Administrators and privileged commands\<close>

lemma removeAdmin_super:
  "fst (removeAdmin ''CodeDevPro'' cp) = False
   \<and> admins (snd (removeAdmin ''CodeDevPro'' cp)) = admins cp
   \<and> adminPermissions (snd (removeAdmin ''CodeDevPro'' cp)) = adminPermissions cp"
  by (simp add: removeAdmin_def console_log_def)

lemma map_of_filter_neq: "map_of (filter (\<lambda>e. fst e \<noteq> k) m) k' = (if k' = k then None else map_of m k')"
  by (induction m) auto

lemma removeAdmin_other:
  assumes "n \<noteq> ''CodeDevPro''"
  shows "fst (removeAdmin n cp) = True
   \<and> \<not> set_has (admins (snd (removeAdmin n cp))) n
   \<and> \<not> map_has (adminPermissions (snd (removeAdmin n cp))) n
   \<and> (\<forall>m. m \<noteq> n \<longrightarrow>
         set_has (admins (snd (removeAdmin n cp))) m = set_has (admins cp) m
         \<and> map_get (adminPermissions (snd (removeAdmin n cp))) m = map_get (adminPermissions cp) m)"
  using assms
  by (simp add: removeAdmin_def console_log_def set_has_def set_delete_def map_has_def
      map_delete_def map_get_def map_of_filter_neq)

lemma apply_admin_op_keeps_super:
  "isAdmin cp ''CodeDevPro'' \<Longrightarrow> isAdmin (apply_admin_op op cp) ''CodeDevPro''"
  by (cases op)
     (auto simp: isAdmin_def addAdmin_def removeAdmin_def console_log_def set_has_def set_add_def
        set_delete_def)

lemma apply_admin_ops_keep_super:
  "isAdmin cp ''CodeDevPro'' \<Longrightarrow> isAdmin (apply_admin_ops ops cp) ''CodeDevPro''"
  unfolding apply_admin_ops_def
  by (induction ops arbitrary: cp) (simp_all add: apply_admin_op_keeps_super)

lemma new_is_admin: "isAdmin (new_CommandProcessor cmds cats its qs ls now pos) ''CodeDevPro''"
  by (simp add: isAdmin_def new_CommandProcessor_def set_has_def)

text \<open>
  Claim C9. \<open>removeAdmin('CodeDevPro')\<close> returns false and changes neither the admin set
  nor the permissions map; for any other name it returns true and deletes the name from
  both, leaving every other name as it was. So after any sequence of \<open>addAdmin\<close> and
  \<open>removeAdmin\<close> calls \<open>CodeDevPro\<close> is still an admin, in particular when the sequence
  starts from a newly constructed processor.
\<close>

theorem super_admin_never_removed:
  "fst (removeAdmin ''CodeDevPro'' cp) = False
   \<and> admins (snd (removeAdmin ''CodeDevPro'' cp)) = admins cp
   \<and> adminPermissions (snd (removeAdmin ''CodeDevPro'' cp)) = adminPermissions cp
   \<and> (n \<noteq> ''CodeDevPro'' \<longrightarrow>
        fst (removeAdmin n cp) = True
        \<and> \<not> set_has (admins (snd (removeAdmin n cp))) n
        \<and> \<not> map_has (adminPermissions (snd (removeAdmin n cp))) n
        \<and> (\<forall>m. m \<noteq> n \<longrightarrow>
              set_has (admins (snd (removeAdmin n cp))) m = set_has (admins cp) m
              \<and> map_get (adminPermissions (snd (removeAdmin n cp))) m
                  = map_get (adminPermissions cp) m))
   \<and> (isAdmin cp ''CodeDevPro'' \<longrightarrow> isAdmin (apply_admin_ops ops cp) ''CodeDevPro'')
   \<and> isAdmin (apply_admin_ops ops (new_CommandProcessor cmds cats its qs ls now pos)) ''CodeDevPro''"
  using removeAdmin_super [of cp] removeAdmin_other [of n cp]
    apply_admin_ops_keep_super [of cp ops]
    apply_admin_ops_keep_super [OF new_is_admin, of ops cmds cats its qs ls now pos]
  by blast

theorem super_admin_never_removed_witness:
  "''alice'' \<noteq> ''CodeDevPro''
   \<and> isAdmin sample_processor ''CodeDevPro''
   \<and> fst (removeAdmin ''alice'' sample_processor) = True
   \<and> isAdmin (apply_admin_ops [AddAdmin ''alice'', RemoveAdmin ''CodeDevPro'', RemoveAdmin ''alice'']
                sample_processor) ''CodeDevPro''"
proof -
  have h: "''alice'' \<noteq> ''CodeDevPro'' \<and> isAdmin sample_processor ''CodeDevPro''"
    by (simp add: sample_processor_def new_is_admin)
  show ?thesis
    using h super_admin_never_removed
      [of sample_processor "''alice''"
          "[AddAdmin ''alice'', RemoveAdmin ''CodeDevPro'', RemoveAdmin ''alice'']"]
    by blast
qed

text \<open>
  \<open>processCommand\<close> rejects an admin-only action of a user who is not an admin: it returns
  false and only writes the error line.
\<close>

lemma processCommand_rejects:
  assumes "is_admin_only cp (cmd_action d)" and "\<not> isAdmin cp (username d)"
  shows "processCommand d cp =
           (Some False,
            console_error (''User '' @ username d @ '' is not authorized to use admin command: ''
                           @ cmd_action d) cp)"
  using assms by (simp add: processCommand_def Let_def)

text \<open>\<open>initializeTaskTracking\<close> registers the task whoever sent the command.\<close>

lemma map_has_map_set: "map_has (map_set m k v) k"
  by (induction m) (auto simp: map_has_def)

lemma initializeTaskTracking_registers:
  "map_has (activeTasks (initializeTaskTracking taskId pc an cp)) taskId"
  by (simp add: initializeTaskTracking_def Let_def map_has_map_set)

text \<open>
  Claim C8 at a failing input. \<open>ban\<close> is admin-only and \<open>mallory\<close> is not an admin.
  \<open>processCommand\<close> rejects the structured command, but the free-text command
  \<open>Bot 1 ban steve\<close> sent by \<open>mallory\<close> is parsed to the same action, a task is created
  for it and run to its end: \<open>processNaturalCommand\<close> never consults the admin set.
\<close>

theorem natural_command_skips_admin_check:
  "is_admin_only privileged_processor ''ban''
   \<and> \<not> isAdmin privileged_processor ''mallory''
   \<and> fst (processCommand ban_command privileged_processor) = Some False
   \<and> activeTasks (snd (processCommand ban_command privileged_processor)) = []
   \<and> parsed_action (parseNaturalCommand privileged_processor ''Bot 1 ban steve'')
       = Some \<lparr>action_type = ''admin'', action_name = ''ban''\<rparr>
   \<and> fst (processNaturalCommand sample_analysis sample_exec ''task_1'' ''Bot 1 ban steve''
             ''mallory'' privileged_processor) = Inr True
   \<and> map_has (activeTasks (snd (processNaturalCommand sample_analysis sample_exec ''task_1''
             ''Bot 1 ban steve'' ''mallory'' privileged_processor))) ''task_1''"
  by code_simp

section \<open>Navigation goals\<close>

lemma setGoal_same: "same_goal (currentGoal a) g \<Longrightarrow> setGoal E g a = Returns a"
  by (simp add: setGoal_def)


lemma setGoal_calls:
  "\<exists>cs. calls (final (setGoal E g a)) = calls a @ cs \<and> (\<forall>c\<in>set cs. \<not> is_craft c)"
  by (auto simp: setGoal_def invoke_def Let_def console_err_def is_craft_def
      split: option.splits if_splits prod.splits)

lemma setGoal_None_state: "state (final (setGoal E None a)) = state a"
  by (auto simp: setGoal_def invoke_def Let_def console_err_def same_goal_def
      split: option.splits if_splits prod.splits)

lemma setGoal_flag2: "needsBasicResources (final (setGoal E g a)) = needsBasicResources a"
  by (auto simp: setGoal_def invoke_def Let_def console_err_def
      split: option.splits if_splits prod.splits)

lemma submissions_append [simp]: "submissions (xs @ ys) = submissions xs + submissions ys"
  by (simp add: submissions_def)

text \<open>
  Claim C3. Calling \<open>setGoal\<close> with a goal that has the constructor and the destination
  of the current goal returns the agent unchanged: no stop request, no submission, no
  other effect. Hence, when a goal that is not the current one is set twice in a row and
  the path-finder accepts it (the stop request, if one is made, does not throw), the
  first call submits it, the second call changes nothing, and the two calls together
  make exactly one submission.
\<close>

theorem setGoal_identical_goal_is_noop:
  "(same_goal (currentGoal a) (Some g) \<longrightarrow> setGoal E (Some g) a = Returns a)
   \<and> (\<not> same_goal (currentGoal a) (Some g)
        \<and> (pathfinder_goal (mineflayerBot a) \<noteq> None \<longrightarrow> pathfinder_stop E (mineflayerBot a) \<noteq> None)
        \<and> (\<forall>b. pathfinder_setGoal E g b \<noteq> None)
      \<longrightarrow> (\<exists>a1. setGoal E (Some g) a = Returns a1
                \<and> currentGoal a1 = Some g
                \<and> setGoal E (Some g) a1 = Returns a1
                \<and> submissions (calls a1) = submissions (calls a) + 1
                \<and> final (and_then (setGoal E (Some g) a) (setGoal E (Some g))) = a1))"
proof -
  have twice: "\<exists>a1. setGoal E (Some g) a = Returns a1 \<and> currentGoal a1 = Some g
                \<and> setGoal E (Some g) a1 = Returns a1
                \<and> submissions (calls a1) = submissions (calls a) + 1
                \<and> final (and_then (setGoal E (Some g) a) (setGoal E (Some g))) = a1"
    if new: "\<not> same_goal (currentGoal a) (Some g)"
      and stop: "pathfinder_goal (mineflayerBot a) \<noteq> None \<longrightarrow> pathfinder_stop E (mineflayerBot a) \<noteq> None"
      and acc: "\<forall>b. pathfinder_setGoal E g b \<noteq> None"
  proof -
    have "\<exists>a0. (if pathfinder_goal (mineflayerBot a) \<noteq> None
                then invoke Stop (pathfinder_stop E) a else (True, a)) = (True, a0)
              \<and> submissions (calls a0) = submissions (calls a)"
    proof (cases "pathfinder_goal (mineflayerBot a)")
      case None
      then show ?thesis by simp
    next
      case (Some gl)
      with stop obtain b where "pathfinder_stop E (mineflayerBot a) = Some b"
        by auto
      then show ?thesis
        using Some by (simp add: invoke_def Let_def submissions_def)
    qed
    then obtain a0 where a0: "(if pathfinder_goal (mineflayerBot a) \<noteq> None
                           then invoke Stop (pathfinder_stop E) a else (True, a)) = (True, a0)"
      and sub0: "submissions (calls a0) = submissions (calls a)"
      by blast
    obtain y where y: "pathfinder_setGoal E g (mineflayerBot a0) = Some y"
      using acc by blast
    define a1 where "a1 = a0\<lparr>currentGoal := Some g, calls := calls a0 @ [SetGoal g], mineflayerBot := y\<rparr>"
    have first: "setGoal E (Some g) a = Returns a1"
      using new a0 y by (simp add: setGoal_def invoke_def Let_def a1_def)
    have cur: "currentGoal a1 = Some g"
      by (simp add: a1_def)
    have sub: "submissions (calls a1) = submissions (calls a) + 1"
      using sub0 by (simp add: a1_def submissions_def)
    have "same_goal (currentGoal a1) (Some g)"
      by (simp add: cur same_goal_def)
    then have second: "setGoal E (Some g) a1 = Returns a1"
      by (rule setGoal_same)
    show ?thesis
      using first cur second sub by simp
  qed
  show ?thesis
    using twice by (simp add: setGoal_same)
qed

theorem setGoal_identical_goal_is_noop_witness:
  "\<not> same_goal (currentGoal (new_BotProperties ''Bot1'' sample_client))
        (Some (new_GoalGetToBlock (3, 0, 0)))
   \<and> submissions (calls (final (and_then
        (setGoal accepting_env (Some (new_GoalGetToBlock (3, 0, 0)))
           (new_BotProperties ''Bot1'' sample_client))
        (setGoal accepting_env (Some (new_GoalGetToBlock (3, 0, 0))))))) = 1"
proof -
  let ?a = "new_BotProperties ''Bot1'' sample_client"
  let ?g = "new_GoalGetToBlock (3, 0, 0)"
  have h: "\<not> same_goal (currentGoal ?a) (Some ?g)
        \<and> (pathfinder_goal (mineflayerBot ?a) \<noteq> None
             \<longrightarrow> pathfinder_stop accepting_env (mineflayerBot ?a) \<noteq> None)
        \<and> (\<forall>b. pathfinder_setGoal accepting_env ?g b \<noteq> None)"
    by (simp add: new_BotProperties_def sample_client_def accepting_env_def same_goal_def)
  have c: "submissions (calls ?a) = 0"
    by (simp add: new_BotProperties_def submissions_def)
  from setGoal_identical_goal_is_noop [of ?a ?g accepting_env] h
  obtain a1 where "submissions (calls a1) = submissions (calls ?a) + 1"
    and "final (and_then (setGoal accepting_env (Some ?g) ?a) (setGoal accepting_env (Some ?g))) = a1"
    by blast
  then show ?thesis using h c by simp
qed

section \<open>The chat cooldown\<close>

text \<open>Messages sent through \<open>chat\<close> alone keep the cooldown.\<close>

lemma spaced_snoc:
  "spaced cd ms \<Longrightarrow> (ms \<noteq> [] \<longrightarrow> t - fst (last ms) > cd) \<Longrightarrow> spaced cd (ms @ [(t, msg)])"
  by (induction cd ms rule: spaced.induct) auto

lemma chat_keeps_inv:
  "chat_inv a \<Longrightarrow> chat_inv (chat msg (a\<lparr>mineflayerBot := (mineflayerBot a)\<lparr>time_now := t\<rparr>\<rparr>))"
  by (auto simp: chat_inv_def chat_def bot_chat_def Let_def spaced_snoc)

lemma chat_cooldown_field:
  "chatCooldown (chat msg a) = chatCooldown a"
  by (simp add: chat_def bot_chat_def Let_def)

lemma chat_only_spaced:
  assumes "chat_inv a" and "\<forall>ev\<in>set evs. \<exists>msg. snd ev = CallChat msg"
  shows "chat_inv (run_events E evs a)"
  using assms unfolding run_events_def
proof (induction evs arbitrary: a)
  case Nil
  then show ?case by simp
next
  case (Cons ev evs)
  obtain t msg where ev: "ev = (t, CallChat msg)"
    using Cons.prems(2) by (cases ev) auto
  have "chat_inv (run_event E ev a)"
    unfolding ev using Cons.prems(1) by (simp add: chat_keeps_inv)
  then show ?case
    using Cons by simp
qed


text \<open>
  Claim C7 at a failing input. A new agent says \<open>hello\<close> through \<open>chat\<close> at time 10000
  and is asked at time 10001 to give an item it does not hold: \<open>give\<close> sends its reply
  through the client directly, one millisecond after the first message, although the
  cooldown is 5000.
\<close>

theorem give_bypasses_chat_cooldown:
  "chat_sent (mineflayerBot (run_events accepting_env
       [(10000, CallChat ''hello''), (10001, CallGive True ''dirt'' ''Bot2'')]
       (new_BotProperties ''Bot1'' sample_client)))
     = [(10000, ''hello''), (10001, ''I don't have dirt.'')]
   \<and> chatCooldown (new_BotProperties ''Bot1'' sample_client) = 5000
   \<and> \<not> spaced 5000 (chat_sent (mineflayerBot (run_events accepting_env
       [(10000, CallChat ''hello''), (10001, CallGive True ''dirt'' ''Bot2'')]
       (new_BotProperties ''Bot1'' sample_client))))"
  by code_simp

section \<open>The sleep check\<close>

lemma sleep_check_enabled:
  "canSleep a \<Longrightarrow> sleep_check a = (\<not> isDay (mineflayerBot a) \<and> \<not> isSleeping (mineflayerBot a))"
  by (simp add: sleep_check_def)

lemma sleep_check_disabled: "\<not> canSleep a \<Longrightarrow> sleep_check a"
  by (simp add: sleep_check_def)

text \<open>
  Claim C5 at a failing input. With sleeping switched off the check triggers at noon:
  the agent, idle and carrying a bed, heads for the placed bed. It also triggers while
  the agent is asleep.
\<close>

theorem sleep_check_triggers_when_sleeping_disabled:
  "\<not> canSleep day_agent
   \<and> isDay (mineflayerBot day_agent)
   \<and> sleep_check day_agent
   \<and> state day_agent = Idle
   \<and> state (final (handleSleeping accepting_env day_agent)) = Moving_to_sleep
   \<and> calls (final (handleSleeping accepting_env day_agent)) = [SetGoal (new_GoalGetToBlock (2, 0, 0))]
   \<and> sleep_check (day_agent\<lparr>mineflayerBot := (mineflayerBot day_agent)\<lparr>isSleeping := True\<rparr>\<rparr>)"
  by code_simp

theorem sleep_check_triggers_when_sleeping_disabled_witness:
  "\<not> canSleep day_agent \<and> isDay (mineflayerBot day_agent) \<and> sleep_check day_agent
   \<and> state (final (handleSleeping accepting_env day_agent)) = Moving_to_sleep"
  using sleep_check_triggers_when_sleeping_disabled by blast

section \<open>The resource progression planner\<close>

lemma calls_chat [simp]: "calls (chat msg a) = calls a"
  by (simp add: chat_def bot_chat_def Let_def)

lemma calls_console_err [simp]: "calls (console_err msg a) = calls a"
  by (simp add: console_err_def)

lemma flag_chat [simp]: "needsBasicResources (chat msg a) = needsBasicResources a"
  by (simp add: chat_def bot_chat_def Let_def)

lemma flag_console_err [simp]: "needsBasicResources (console_err msg a) = needsBasicResources a"
  by (simp add: console_err_def)

lemma is_tool_craft_is_craft: "is_tool_craft c \<Longrightarrow> is_craft c"
  by (cases c) (simp_all add: is_tool_craft_def is_craft_def)

lemma craft_each_flag:
  "craft_each E ts a = (ok, a') \<Longrightarrow> needsBasicResources a' = needsBasicResources a"
proof (induction ts arbitrary: a)
  case Nil
  then show ?case by simp
next
  case (Cons u rest)
  show ?case
  proof (cases "recipesFor E (mineflayerBot a) u")
    case False
    then show ?thesis using Cons.prems by auto
  next
    case True
    show ?thesis
    proof (cases "craft E u 1 True (mineflayerBot a)")
      case None
      then show ?thesis using Cons.prems True by (auto simp: invoke_def Let_def)
    next
      case (Some b)
      then have "craft_each E rest (a\<lparr>calls := calls a @ [Craft u 1 True], mineflayerBot := b\<rparr>) = (ok, a')"
        using Cons.prems True by (simp add: invoke_def Let_def)
      from Cons.IH [OF this] show ?thesis by simp
    qed
  qed
qed

lemma craft_each_fail:
  assumes "t \<in> set ts"
    and "\<forall>b. \<not> recipesFor E b t \<or> craft E t 1 True b = None"
    and "craft_each E ts a = (ok, a')"
  shows "\<not> ok \<and> state a' = Idle
         \<and> (\<exists>cs. calls a' = calls a @ cs
              \<and> (\<forall>c\<in>set cs. \<exists>u\<in>set (takeWhile (\<lambda>u. u \<noteq> t) ts @ [t]). c = Craft u 1 True))"
  using assms
proof (induction ts arbitrary: a)
  case Nil
  then show ?case by simp
next
  case (Cons u rest)
  show ?case
  proof (cases "recipesFor E (mineflayerBot a) u")
    case False
    then have "ok = False" and "calls a' = calls a" and "state a' = Idle"
      using Cons.prems(3) by auto
    then show ?thesis by simp
  next
    case True
    show ?thesis
    proof (cases "craft E u 1 True (mineflayerBot a)")
      case None
      then have "ok = False" and "calls a' = calls a @ [Craft u 1 True]" and "state a' = Idle"
        using Cons.prems(3) True by (auto simp: invoke_def Let_def)
      then show ?thesis by auto
    next
      case (Some b)
      then have ut: "u \<noteq> t"
        using Cons.prems(2) True by auto
      then have mem: "t \<in> set rest"
        using Cons.prems(1) by simp
      let ?a1 = "a\<lparr>calls := calls a @ [Craft u 1 True], mineflayerBot := b\<rparr>"
      have run: "craft_each E rest ?a1 = (ok, a')"
        using Cons.prems(3) True Some by (simp add: invoke_def Let_def)
      from Cons.IH [OF mem Cons.prems(2) run]
      obtain cs where ok: "\<not> ok" and st: "state a' = Idle"
        and cs: "calls a' = calls ?a1 @ cs"
        and each: "\<forall>c\<in>set cs. \<exists>v\<in>set (takeWhile (\<lambda>u. u \<noteq> t) rest @ [t]). c = Craft v 1 True"
        by blast
      have "calls a' = calls a @ (Craft u 1 True # cs)"
        using cs by simp
      moreover have "\<forall>c\<in>set (Craft u 1 True # cs).
                       \<exists>v\<in>set (takeWhile (\<lambda>u. u \<noteq> t) (u # rest) @ [t]). c = Craft v 1 True"
        using each ut by auto
      ultimately show ?thesis
        using ok st by blast
    qed
  qed
qed

lemma nearest_mem: "nearest p cs = Some c \<Longrightarrow> c \<in> set cs"
  by (induction cs arbitrary: c) (auto split: option.splits if_splits)

lemma findBlock_within:
  "findBlock b m d = Some c \<Longrightarrow> dist2 (position b) (fst c) \<le> d * d \<and> m (snd c)"
  by (auto simp: findBlock_def dest: nearest_mem)

lemma distinct_neededTools: "distinct (neededTools b)"
  by (auto simp: neededTools_def)

lemma tools_after_disjoint:
  assumes "distinct ts" and "u \<in> set (tools_after t ts)"
  shows "u \<notin> set (takeWhile (\<lambda>v. v \<noteq> t) ts @ [t])"
proof -
  have split: "ts = takeWhile (\<lambda>v. v \<noteq> t) ts @ dropWhile (\<lambda>v. v \<noteq> t) ts"
    by simp
  from assms(2) have ne: "dropWhile (\<lambda>v. v \<noteq> t) ts \<noteq> []"
    by (cases "dropWhile (\<lambda>v. v \<noteq> t) ts") (simp_all add: tools_after_def)
  then have hd: "hd (dropWhile (\<lambda>v. v \<noteq> t) ts) = t"
    using hd_dropWhile [of "\<lambda>v. v \<noteq> t" ts] by simp
  then have dw: "dropWhile (\<lambda>v. v \<noteq> t) ts = t # tools_after t ts"
    using ne by (cases "dropWhile (\<lambda>v. v \<noteq> t) ts") (simp_all add: tools_after_def)
  have "distinct (takeWhile (\<lambda>v. v \<noteq> t) ts @ t # tools_after t ts)"
    using assms(1) split dw by metis
  then show ?thesis
    using assms(2) by auto
qed

text \<open>
  Claim C6. The agent stands at a crafting table and \<open>t\<close> is one of the tools it lacks.
  If the world has no recipe for \<open>t\<close> or rejects crafting it, \<open>craftBasicTools\<close> returns
  with the agent idle and the flag \<open>needsBasicResources\<close> as it was, and no tool that
  comes after \<open>t\<close> in the batch is attempted.
\<close>

theorem tool_craft_failure_aborts_batch:
  assumes "findBlock (mineflayerBot a) is_table 3 \<noteq> None"
    and "t \<in> set (neededTools (mineflayerBot a))"
    and "\<forall>b. \<not> recipesFor E b t \<or> craft E t 1 True b = None"
  shows "\<exists>a'. craftBasicTools (Suc n) E a = Returns a'
           \<and> state a' = Idle
           \<and> needsBasicResources a' = needsBasicResources a
           \<and> (\<forall>u\<in>set (tools_after t (neededTools (mineflayerBot a))).
                 \<forall>k tb. Craft u k tb \<notin> set (new_calls a a'))"
proof -
  let ?b = "mineflayerBot a"
  from assms(1) obtain blk where blk: "findBlock ?b is_table 3 = Some blk"
    by blast
  then have near: "\<not> dist2 (position ?b) (fst blk) > 9"
    using findBlock_within [OF blk] by simp
  have ne: "neededTools ?b \<noteq> []"
    using assms(2) by auto
  obtain ok a' where run: "craft_each E (neededTools ?b) a = (ok, a')"
    by (cases "craft_each E (neededTools ?b) a")
  from craft_each_fail [OF assms(2) assms(3) run]
  obtain cs where ok: "\<not> ok" and st: "state a' = Idle" and cs: "calls a' = calls a @ cs"
    and each: "\<forall>c\<in>set cs. \<exists>u\<in>set (takeWhile (\<lambda>u. u \<noteq> t) (neededTools ?b) @ [t]). c = Craft u 1 True"
    by blast
  have ret: "craftBasicTools (Suc n) E a = Returns a'"
    using blk near ne run ok by (simp add: Let_def)
  have new: "new_calls a a' = cs"
    by (simp add: new_calls_def cs)
  have none: "Craft u k tb \<notin> set (new_calls a a')"
    if u: "u \<in> set (tools_after t (neededTools ?b))" for u k tb
  proof
    assume "Craft u k tb \<in> set (new_calls a a')"
    then obtain v where "v \<in> set (takeWhile (\<lambda>u. u \<noteq> t) (neededTools ?b) @ [t])"
      and "Craft u k tb = Craft v 1 True"
      using each new by blast
    then have "u \<in> set (takeWhile (\<lambda>u. u \<noteq> t) (neededTools ?b) @ [t])"
      by simp
    then show False
      using tools_after_disjoint [OF distinct_neededTools u] by blast
  qed
  show ?thesis
    using ret st craft_each_flag [OF run] none by blast
qed


theorem tool_craft_failure_aborts_batch_witness:
  "findBlock (mineflayerBot crafter) is_table 3 \<noteq> None
   \<and> ''wooden_axe'' \<in> set (neededTools (mineflayerBot crafter))
   \<and> craft no_axe_env ''wooden_axe'' 1 True (mineflayerBot crafter) = None
   \<and> needsBasicResources crafter
   \<and> state (final (craftBasicTools 1 no_axe_env crafter)) = Idle
   \<and> needsBasicResources (final (craftBasicTools 1 no_axe_env crafter))
   \<and> Craft ''wooden_pickaxe'' 1 True
        \<notin> set (new_calls crafter (final (craftBasicTools 1 no_axe_env crafter)))"
proof -
  have h1: "findBlock (mineflayerBot crafter) is_table 3 \<noteq> None
            \<and> ''wooden_axe'' \<in> set (neededTools (mineflayerBot crafter))
            \<and> tools_after ''wooden_axe'' (neededTools (mineflayerBot crafter)) = [''wooden_pickaxe'']
            \<and> needsBasicResources crafter"
    by code_simp
  have h2: "\<forall>b. \<not> recipesFor no_axe_env b ''wooden_axe'' \<or> craft no_axe_env ''wooden_axe'' 1 True b = None"
    by (simp add: no_axe_env_def accepting_env_def)
  from tool_craft_failure_aborts_batch [of crafter "''wooden_axe''" no_axe_env 0] h1 h2
  obtain a' where "craftBasicTools (Suc 0) no_axe_env crafter = Returns a'"
    and "state a' = Idle" and "needsBasicResources a' = needsBasicResources crafter"
    and "\<forall>u\<in>set (tools_after ''wooden_axe'' (neededTools (mineflayerBot crafter))).
            \<forall>k tb. Craft u k tb \<notin> set (new_calls crafter a')"
    by blast
  moreover have "craft no_axe_env ''wooden_axe'' 1 True (mineflayerBot crafter) = None"
    by (simp add: no_axe_env_def accepting_env_def)
  ultimately show ?thesis
    using h1 by simp
qed

lemma gather_stage_calls:
  "\<exists>cs. calls (final (gather_stage E a)) = calls a @ cs \<and> (\<forall>c\<in>set cs. \<not> is_craft c)"
proof (cases "state a \<noteq> Gathering_wood")
  case True
  then show ?thesis
    using setGoal_calls [of E None "a\<lparr>state := Gathering_wood\<rparr>"] by (simp add: gather_stage_def)
next
  case False
  then show ?thesis by (simp add: gather_stage_def)
qed

lemma gather_stage_state: "state (final (gather_stage E a)) = Gathering_wood"
  by (simp add: gather_stage_def setGoal_None_state)

lemma craft_planks_calls:
  "\<exists>cs. calls (final (craft_planks E k a)) = calls a @ cs \<and> (\<forall>c\<in>set cs. \<not> is_tool_craft c)"
  by (auto simp: craft_planks_def invoke_def Let_def is_tool_craft_def is_tool_def
      split: option.splits)

lemma station_stage_calls:
  "\<exists>cs. calls (final (station_stage E w it a)) = calls a @ cs \<and> (\<forall>c\<in>set cs. \<not> is_tool_craft c)"
proof -
  have plain: "\<exists>cs. calls x = calls a @ cs \<and> (\<forall>c\<in>set cs. \<not> is_tool_craft c)"
    if "calls x = calls a" for x
    using that by simp
  show ?thesis
    unfolding station_stage_def Let_def
    using craft_planks_calls [of E _ a]
    by (auto simp: invoke_def Let_def is_tool_craft_def is_tool_def split: option.splits)
qed

lemma gather_stage_flag: "needsBasicResources (final (gather_stage E a)) = needsBasicResources a"
  by (simp add: gather_stage_def setGoal_flag2)

lemma craft_planks_flag: "needsBasicResources (final (craft_planks E k a)) = needsBasicResources a"
  by (auto simp: craft_planks_def invoke_def Let_def split: option.splits)

lemma station_stage_flag:
  "needsBasicResources (final (station_stage E w it a)) = needsBasicResources a"
  by (auto simp: station_stage_def craft_planks_flag invoke_def Let_def split: option.splits)

lemma planner_completion:
  assumes "needsBasicResources a"
    and "\<not> needsBasicResources (final (handleBasicResourceGathering n E a))"
  shows "station_exists (mineflayerBot a) \<and> requiredWoodCount a \<le> woodCount (mineflayerBot a)"
proof (cases n)
  case 0
  then show ?thesis using assms by simp
next
  case (Suc m)
  let ?b = "mineflayerBot a"
  let ?a1 = "a\<lparr>hasCraftingTable := station_exists ?b\<rparr>"
  show ?thesis
  proof (rule ccontr)
    assume neg: "\<not> ?thesis"
    have "needsBasicResources (final (handleBasicResourceGathering n E a))"
    proof (cases "woodCount ?b < requiredWoodCount a")
      case True
      then have "handleBasicResourceGathering n E a = gather_stage E ?a1"
        using Suc assms(1) by (simp add: Let_def)
      then show ?thesis using assms(1) by (simp add: gather_stage_flag)
    next
      case False
      with neg have "\<not> station_exists ?b" by simp
      then have "handleBasicResourceGathering n E a
                 = station_stage E (woodCount ?b) (findInventoryItem ?b ''crafting_table'') ?a1"
        using Suc assms(1) False by (simp add: Let_def)
      then show ?thesis using assms(1) by (simp add: station_stage_flag)
    qed
    with assms(2) show False by simp
  qed
qed

lemma planner_calls_in_order:
  "(\<forall>c\<in>set (new_calls a (final (handleBasicResourceGathering n E a))).
       is_tool_craft c \<longrightarrow>
         station_exists (mineflayerBot a) \<and> requiredWoodCount a \<le> woodCount (mineflayerBot a))
   \<and> (\<forall>c\<in>set (new_calls a (final (handleBasicResourceGathering n E a))).
       is_craft c \<longrightarrow> requiredWoodCount a \<le> woodCount (mineflayerBot a))
   \<and> (needsBasicResources a \<and> 0 < n \<and> woodCount (mineflayerBot a) < requiredWoodCount a \<longrightarrow>
        state (final (handleBasicResourceGathering n E a)) = Gathering_wood)"
proof (cases n)
  case 0
  then show ?thesis by (simp add: new_calls_def)
next
  case (Suc m)
  let ?b = "mineflayerBot a"
  let ?a1 = "a\<lparr>hasCraftingTable := station_exists ?b\<rparr>"
  show ?thesis
  proof (cases "needsBasicResources a")
    case False
    then show ?thesis using Suc by (simp add: new_calls_def)
  next
    case flag: True
    show ?thesis
    proof (cases "woodCount ?b < requiredWoodCount a")
      case True
      then have run: "handleBasicResourceGathering n E a = gather_stage E ?a1"
        using Suc flag by (simp add: Let_def)
      obtain cs where "calls (final (gather_stage E ?a1)) = calls a @ cs"
        and "\<forall>c\<in>set cs. \<not> is_craft c"
        using gather_stage_calls [of E ?a1] by auto
      then have "\<forall>c\<in>set (new_calls a (final (handleBasicResourceGathering n E a))). \<not> is_craft c"
        by (simp add: run new_calls_def)
      then show ?thesis
        using is_tool_craft_is_craft by (auto simp: run gather_stage_state)
    next
      case enough: False
      show ?thesis
      proof (cases "station_exists ?b")
        case True
        then show ?thesis using enough by simp
      next
        case False
        then have run: "handleBasicResourceGathering n E a
                        = station_stage E (woodCount ?b) (findInventoryItem ?b ''crafting_table'') ?a1"
          using Suc flag enough by (simp add: Let_def)
        obtain cs where "calls (final (station_stage E (woodCount ?b)
                                  (findInventoryItem ?b ''crafting_table'') ?a1)) = calls a @ cs"
          and "\<forall>c\<in>set cs. \<not> is_tool_craft c"
          using station_stage_calls [of E "woodCount ?b" "findInventoryItem ?b ''crafting_table''" ?a1]
          by auto
        then have "\<forall>c\<in>set (new_calls a (final (handleBasicResourceGathering n E a))). \<not> is_tool_craft c"
          by (simp add: run new_calls_def)
        then show ?thesis
          using enough by auto
      qed
    qed
  qed
qed

text \<open>
  Claim C4. Whatever the agent's state and the world, every tool crafting attempted by
  \<open>handleBasicResourceGathering\<close> (the nested re-evaluations included) finds a crafting
  table in the inventory or placed nearby and a wood count at the threshold at the
  start of that call, and every crafting at all (table, planks, tools) finds the wood
  count at the threshold. The stages are taken in order: below the threshold the agent
  ends in the gathering state whatever else it holds, and the plan is declared complete
  only from a state with enough wood and a station.
\<close>

theorem planner_stage_order:
  "(\<forall>c\<in>set (new_calls a (final (handleBasicResourceGathering n E a))).
       is_tool_craft c \<longrightarrow>
         station_exists (mineflayerBot a) \<and> requiredWoodCount a \<le> woodCount (mineflayerBot a))
   \<and> (\<forall>c\<in>set (new_calls a (final (handleBasicResourceGathering n E a))).
       is_craft c \<longrightarrow> requiredWoodCount a \<le> woodCount (mineflayerBot a))
   \<and> (needsBasicResources a \<and> 0 < n \<and> woodCount (mineflayerBot a) < requiredWoodCount a \<longrightarrow>
        state (final (handleBasicResourceGathering n E a)) = Gathering_wood)
   \<and> (needsBasicResources a \<and> \<not> needsBasicResources (final (handleBasicResourceGathering n E a)) \<longrightarrow>
        station_exists (mineflayerBot a) \<and> requiredWoodCount a \<le> woodCount (mineflayerBot a))"
  using planner_calls_in_order [of a n E] planner_completion [of a n E]
  by blast

theorem planner_stage_order_witness:
  "is_tool_craft (Craft ''wooden_axe'' 1 True)
   \<and> Craft ''wooden_axe'' 1 True
        \<in> set (new_calls crafter (final (handleBasicResourceGathering 5 accepting_env crafter)))
   \<and> needsBasicResources crafter
   \<and> \<not> needsBasicResources (final (handleBasicResourceGathering 5 accepting_env crafter))
   \<and> station_exists (mineflayerBot crafter)
   \<and> requiredWoodCount crafter \<le> woodCount (mineflayerBot crafter)
   \<and> needsBasicResources (new_BotProperties ''Bot1'' sample_client)
   \<and> woodCount (mineflayerBot (new_BotProperties ''Bot1'' sample_client))
       < requiredWoodCount (new_BotProperties ''Bot1'' sample_client)
   \<and> state (final (handleBasicResourceGathering 5 accepting_env
                      (new_BotProperties ''Bot1'' sample_client))) = Gathering_wood"
proof -
  have h: "is_tool_craft (Craft ''wooden_axe'' 1 True)
     \<and> Craft ''wooden_axe'' 1 True
          \<in> set (new_calls crafter (final (handleBasicResourceGathering 5 accepting_env crafter)))
     \<and> needsBasicResources crafter
     \<and> \<not> needsBasicResources (final (handleBasicResourceGathering 5 accepting_env crafter))
     \<and> needsBasicResources (new_BotProperties ''Bot1'' sample_client)
     \<and> woodCount (mineflayerBot (new_BotProperties ''Bot1'' sample_client))
         < requiredWoodCount (new_BotProperties ''Bot1'' sample_client)"
    by code_simp
  show ?thesis
    using h planner_stage_order [of crafter 5 accepting_env]
      planner_stage_order [of "new_BotProperties ''Bot1'' sample_client" 5 accepting_env]
    by auto
qed

section \<open>The tick boundary\<close>


lemma stuck_Returns [simp]: "stuck (Returns a)"
  by (simp add: stuck_def)


lemma stuck_detach [simp]: "stuck (detach r)"
  by (cases r) (simp_all add: stuck_def)







end
